theory Spec2Isabelle
  imports Complex_Main "HOL-Library.AList" "HOL-Library.Char_ord" "HOL-Library.List_Lexorder"
begin

section \<open>Date and coordinate conversions (sndata/\_utils.py)\<close>

text \<open>
  Time stamps and angles are Python floats (the tests also pass integers). They are
  modelled as exact reals; every sum and quotient below is the one the source writes,
  in the source's order.
\<close>

definition snoopy_offset :: real where
  "snoopy_offset = 53000"

definition mjd_offset :: real where
  "mjd_offset = 2400000.5"

text \<open>
  \<^verbatim>\<open>convert_to_jd\<close>: two consecutive guarded additions on the local variable
  \<^verbatim>\<open>date\<close>; the second test sees the value the first one left.
\<close>

definition convert_to_jd :: "real \<Rightarrow> real" where
  "convert_to_jd date =
     (let date1 = (if date < snoopy_offset then date + snoopy_offset else date);
          date2 = (if date1 < mjd_offset then date1 + mjd_offset else date1)
      in date2)"

text \<open>
  astropy's \<^verbatim>\<open>Angle((h, m, s), unit='hourangle').to('deg').value\<close> is library
  code: it is taken as fifteen degrees per hour on the sexagesimal value, for the
  non-negative components the callers read from the published tables.
\<close>

definition Angle_hourangle_deg :: "real \<Rightarrow> real \<Rightarrow> real \<Rightarrow> real" where
  "Angle_hourangle_deg h m s = 15 * (h + m / 60 + s / 3600)"

text \<open>
  \<^verbatim>\<open>hourangle_to_degrees\<close>: the declination is the sum
  \<^verbatim>\<open>sign * decd + decm / 60 + decs / 60 / 60\<close>, as the source parenthesises it.
\<close>

definition hourangle_to_degrees ::
  "real \<Rightarrow> real \<Rightarrow> real \<Rightarrow> string \<Rightarrow> real \<Rightarrow> real \<Rightarrow> real \<Rightarrow> real \<times> real" where
  "hourangle_to_degrees rah ram ras dec_sign decd decm decs =
     (let ra = Angle_hourangle_deg rah ram ras;
          sign = (if dec_sign = ''-'' then - 1 else 1);
          dec = sign * decd + decm / 60 + decs / 60 / 60
      in (ra, dec))"

section \<open>Errors\<close>

text \<open>
  Every exception the modelled code can raise is a value; a function that can raise
  returns \<open>error + 'a\<close>, with \<open>Inl\<close> for the exception. Exceptions built with a
  message carry it.
\<close>

datatype error =
    NoDownloadedData
  | InvalidObjId
  | ValueError string
  | RuntimeError string
  | KeyError string
  | IndexError
  | TypeError
  | UnboundLocalError string
  | FileNotFoundError
  | IsADirectoryError
  | FileExistsError
  | PermissionError
  | ConnectionError
  | RequestException
  | HTTPError
  | ReadError
  | AttributeError
  | InconsistentTableError
  | TableMergeError

definition bindE :: "error + 'a \<Rightarrow> ('a \<Rightarrow> error + 'b) \<Rightarrow> error + 'b" where
  "bindE m f = (case m of Inl e \<Rightarrow> Inl e | Inr x \<Rightarrow> f x)"

section \<open>Python strings and paths\<close>

text \<open>\<^verbatim>\<open>s.split(c)\<close> with a one-character separator: never empty, keeps empty fields.\<close>

fun split_on :: "char \<Rightarrow> string \<Rightarrow> string list" where
  "split_on c [] = [[]]"
| "split_on c (x # xs) =
     (if x = c then [] # split_on c xs
      else (case split_on c xs of [] \<Rightarrow> [[x]] | w # ws \<Rightarrow> (x # w) # ws))"

definition is_space :: "char \<Rightarrow> bool" where
  "is_space c = (c = CHR '' '' \<or> c = CHR 0x09 \<or> c = CHR 0x0A \<or> c = CHR 0x0B
                 \<or> c = CHR 0x0C \<or> c = CHR 0x0D)"

text \<open>\<^verbatim>\<open>s.split()\<close>: the maximal runs of non-blank characters.\<close>

fun tokens :: "string \<Rightarrow> string \<Rightarrow> string list" where
  "tokens cur [] = (if cur = [] then [] else [cur])"
| "tokens cur (c # cs) =
     (if is_space c then (if cur = [] then tokens [] cs else cur # tokens [] cs)
      else tokens (cur @ [c]) cs)"

definition py_split :: "string \<Rightarrow> string list" where
  "py_split s = tokens [] s"

text \<open>
  \<^verbatim>\<open>s.lstrip(chars)\<close> and \<^verbatim>\<open>s.rstrip(chars)\<close> remove leading (trailing)
  characters that belong to the SET \<^verbatim>\<open>chars\<close>; they do not remove a prefix or suffix.
\<close>

definition lstrip :: "string \<Rightarrow> string \<Rightarrow> string" where
  "lstrip chars s = dropWhile (\<lambda>c. c \<in> set chars) s"

definition rstrip :: "string \<Rightarrow> string \<Rightarrow> string" where
  "rstrip chars s = rev (dropWhile (\<lambda>c. c \<in> set chars) (rev s))"

definition startswith :: "string \<Rightarrow> string \<Rightarrow> bool" where
  "startswith s pre = (take (length pre) s = pre)"

text \<open>Element \<open>i\<close> of a Python list: IndexError out of range.\<close>

definition item :: "'a list \<Rightarrow> nat \<Rightarrow> error + 'a" where
  "item xs i = (if i < length xs then Inr (xs ! i) else Inl IndexError)"

text \<open>
  Paths are the strings \<^verbatim>\<open>str(path)\<close> gives, components joined by \<open>/\<close>.
  \<^verbatim>\<open>Path.name\<close> is the last component; \<^verbatim>\<open>Path.stem\<close> drops the last suffix
  as pathlib does (a dot at index 0 or at the end starts no suffix).
\<close>

type_synonym path = string

definition join :: "path \<Rightarrow> string \<Rightarrow> path" where
  "join d n = d @ ''/'' @ n"

definition basename :: "path \<Rightarrow> string" where
  "basename p = rev (takeWhile (\<lambda>c. c \<noteq> CHR ''/'') (rev p))"

definition stem :: "path \<Rightarrow> string" where
  "stem p =
     (let n = basename p;
          suffix = takeWhile (\<lambda>c. c \<noteq> CHR ''.'') (rev n)
      in if length suffix < length n \<and> 1 < length n - length suffix \<and> suffix \<noteq> []
         then take (length n - length suffix - 1) n else n)"

text \<open>
  Shell-style matching of one path component, for the patterns of this code base:
  \<open>*\<close> matches any run of characters, \<open>?\<close> one character, any other character
  itself. Bracket classes occur in no pattern of the source and are not interpreted.
\<close>

fun fnmatch :: "string \<Rightarrow> string \<Rightarrow> bool" where
  "fnmatch [] s = (s = [])"
| "fnmatch (p # ps) [] = (p = CHR ''*'' \<and> fnmatch ps [])"
| "fnmatch (p # ps) (c # cs) =
     (if p = CHR ''*'' then fnmatch ps (c # cs) \<or> fnmatch (p # ps) cs
      else if p = CHR ''?'' then fnmatch ps cs
      else p = c \<and> fnmatch ps cs)"

section \<open>The local disk\<close>

text \<open>
  The disk is an association list from paths to nodes, in the order in which the
  operating system enumerates them (directory listings come back in that order, which
  Python does not sort). A file carries a flag saying whether it may be overwritten
  and its bytes.
\<close>

datatype node = Dir | File bool string

type_synonym disk = "(path \<times> node) list"

definition path_exists :: "disk \<Rightarrow> path \<Rightarrow> bool" where
  "path_exists fs p = (map_of fs p \<noteq> None)"

definition children :: "disk \<Rightarrow> path \<Rightarrow> string list" where
  "children fs d =
     (if map_of fs d = Some Dir
      then [drop (length d + 1) p. p \<leftarrow> map fst fs,
              take (length d + 1) p = d @ ''/'',
              drop (length d + 1) p \<noteq> [],
              CHR ''/'' \<notin> set (drop (length d + 1) p)]
      else [])"

text \<open>\<^verbatim>\<open>Path(d).glob(pattern)\<close> for a pattern of one component.\<close>

definition Path_glob :: "disk \<Rightarrow> path \<Rightarrow> string \<Rightarrow> path list" where
  "Path_glob fs d pat = [join d n. n \<leftarrow> children fs d, fnmatch pat n]"

text \<open>\<^verbatim>\<open>Path(d).rglob(pattern)\<close>: every path below \<open>d\<close> whose name matches.\<close>

definition Path_rglob :: "disk \<Rightarrow> path \<Rightarrow> string \<Rightarrow> path list" where
  "Path_rglob fs d pat =
     (if map_of fs d = Some Dir
      then [p. p \<leftarrow> map fst fs, take (length d + 1) p = d @ ''/'', fnmatch pat (basename p)]
      else [])"

text \<open>
  \<^verbatim>\<open>glob.glob(os.path.join(d, pattern))\<close> of the older module: as above, but a
  leading \<open>*\<close> or \<open>?\<close> does not match a name that starts with a dot.
\<close>

definition glob_glob :: "disk \<Rightarrow> path \<Rightarrow> string \<Rightarrow> path list" where
  "glob_glob fs d pat =
     [join d n. n \<leftarrow> children fs d, fnmatch pat n,
        startswith pat ''.'' \<or> \<not> startswith n ''.'']"

text \<open>Opening a path for reading gives its bytes.\<close>

definition read_bytes :: "disk \<Rightarrow> path \<Rightarrow> error + string" where
  "read_bytes fs p =
     (case map_of fs p of
        None \<Rightarrow> Inl FileNotFoundError
      | Some Dir \<Rightarrow> Inl IsADirectoryError
      | Some (File w b) \<Rightarrow> Inr b)"

text \<open>\<^verbatim>\<open>readlines()\<close>: the lines of a text, each with its line feed.\<close>

fun lines_from :: "string \<Rightarrow> string \<Rightarrow> string list" where
  "lines_from cur [] = (if cur = [] then [] else [cur])"
| "lines_from cur (c # cs) =
     (if c = CHR 0x0A then (cur @ [c]) # lines_from [] cs else lines_from (cur @ [c]) cs)"

definition readlines :: "string \<Rightarrow> string list" where
  "readlines b = lines_from [] b"

section \<open>Tables\<close>

text \<open>
  An astropy \<^verbatim>\<open>Table\<close>: named columns in order, each of one dtype, and the
  \<^verbatim>\<open>meta\<close> dictionary (insertion ordered). Metadata values are \<^verbatim>\<open>None\<close>,
  numbers, strings, or the list of comment lines that the ascii reader stores under
  \<^verbatim>\<open>comments\<close>.
\<close>

datatype val = VNone | VNum real | VStr string | VStrs "string list"

datatype column = NumCol "real list" | StrCol "string list"

record table =
  cols :: "(string \<times> column) list"
  meta :: "(string \<times> val) list"

fun col_len :: "column \<Rightarrow> nat" where
  "col_len (NumCol xs) = length xs"
| "col_len (StrCol xs) = length xs"

definition nrows :: "table \<Rightarrow> nat" where
  "nrows t = (case cols t of [] \<Rightarrow> 0 | (n, c) # r \<Rightarrow> col_len c)"

definition colnames :: "table \<Rightarrow> string list" where
  "colnames t = map fst (cols t)"

definition meta_keys :: "table \<Rightarrow> string list" where
  "meta_keys t = map fst (meta t)"

definition empty_table :: table where
  "empty_table = \<lparr>cols = [], meta = []\<rparr>"

text \<open>\<^verbatim>\<open>t[name]\<close>\<close>

definition get_col :: "table \<Rightarrow> string \<Rightarrow> error + column" where
  "get_col t n = (case map_of (cols t) n of None \<Rightarrow> Inl (KeyError n) | Some c \<Rightarrow> Inr c)"

text \<open>
  \<^verbatim>\<open>t[name] = column\<close>: replaces the column of that name or appends a new one; a
  table that already has columns refuses a column of another length.
\<close>

definition set_col :: "table \<Rightarrow> string \<Rightarrow> column \<Rightarrow> error + table" where
  "set_col t n c =
     (if cols t \<noteq> [] \<and> col_len c \<noteq> nrows t
      then Inl (ValueError ''Inconsistent data column lengths'')
      else Inr (t\<lparr>cols := AList.update n c (cols t)\<rparr>))"

text \<open>\<^verbatim>\<open>t[name] = scalar\<close>: the scalar fills the column; a table without columns refuses.\<close>

definition set_num :: "table \<Rightarrow> string \<Rightarrow> real \<Rightarrow> error + table" where
  "set_num t n x =
     (if cols t = [] then Inl TypeError else set_col t n (NumCol (replicate (nrows t) x)))"

definition set_str :: "table \<Rightarrow> string \<Rightarrow> string \<Rightarrow> error + table" where
  "set_str t n x =
     (if cols t = [] then Inl TypeError else set_col t n (StrCol (replicate (nrows t) x)))"

definition rename_column :: "table \<Rightarrow> string \<Rightarrow> string \<Rightarrow> error + table" where
  "rename_column t old new =
     (if old \<notin> set (colnames t) then Inl (KeyError old)
      else if new = old then Inr t
      else if new \<in> set (colnames t) then Inl (KeyError new)
      else Inr (t\<lparr>cols := map (\<lambda>(n, c). (if n = old then new else n, c)) (cols t)\<rparr>))"

definition remove_column :: "table \<Rightarrow> string \<Rightarrow> error + table" where
  "remove_column t n =
     (if n \<notin> set (colnames t) then Inl (KeyError n)
      else Inr (t\<lparr>cols := AList.delete n (cols t)\<rparr>))"

text \<open>The \<^verbatim>\<open>meta\<close> dictionary: item assignment, \<^verbatim>\<open>del\<close>, \<^verbatim>\<open>pop\<close>, lookup.\<close>

definition meta_set :: "table \<Rightarrow> string \<Rightarrow> val \<Rightarrow> table" where
  "meta_set t k v = t\<lparr>meta := AList.update k v (meta t)\<rparr>"

definition meta_get :: "table \<Rightarrow> string \<Rightarrow> error + val" where
  "meta_get t k = (case map_of (meta t) k of None \<Rightarrow> Inl (KeyError k) | Some v \<Rightarrow> Inr v)"

definition meta_del :: "table \<Rightarrow> string \<Rightarrow> error + table" where
  "meta_del t k =
     (if k \<in> set (meta_keys t) then Inr (t\<lparr>meta := AList.delete k (meta t)\<rparr>)
      else Inl (KeyError k))"

definition meta_pop :: "table \<Rightarrow> string \<Rightarrow> error + val \<times> table" where
  "meta_pop t k =
     (case map_of (meta t) k of
        None \<Rightarrow> Inl (KeyError k)
      | Some v \<Rightarrow> Inr (v, t\<lparr>meta := AList.delete k (meta t)\<rparr>))"

text \<open>\<^verbatim>\<open>convert_to_jd\<close> is vectorised: on a column it needs numbers.\<close>

fun convert_to_jd_col :: "column \<Rightarrow> error + column" where
  "convert_to_jd_col (NumCol xs) = Inr (NumCol (map convert_to_jd xs))"
| "convert_to_jd_col (StrCol xs) = Inl TypeError"

text \<open>
  \<^verbatim>\<open>[prefix + s for s in column]\<close>: string concatenation needs strings; a column
  without rows gives the empty list whatever its dtype.
\<close>

fun prefix_col :: "string \<Rightarrow> column \<Rightarrow> error + column" where
  "prefix_col pre (StrCol xs) = Inr (StrCol (map (\<lambda>s. pre @ s) xs))"
| "prefix_col pre (NumCol xs) = (if xs = [] then Inr (StrCol []) else Inl TypeError)"

text \<open>\<^verbatim>\<open>np.max([a, b], axis=0)\<close> on two columns of a table: the row-wise maximum.\<close>

fun max_cols :: "column \<Rightarrow> column \<Rightarrow> error + column" where
  "max_cols (NumCol xs) (NumCol ys) =
     (if length xs = length ys then Inr (NumCol (map (\<lambda>(x, y). max x y) (zip xs ys)))
      else Inl (ValueError ''inhomogeneous shape''))"
| "max_cols a b = Inl TypeError"

section \<open>Third-party readers\<close>

text \<open>
  The parsers that the code calls are library code and are parameters of the model:
  \<^item> \<open>Table_read names bytes\<close>: astropy's ascii reader with the given column names;
  \<^item> \<open>cds_read table readme\<close>: the CDS reader driven by a VizieR ReadMe;
  \<^item> \<open>genfromtxt bytes\<close>: \<^verbatim>\<open>np.genfromtxt(..., dtype=str)\<close>;
  \<^item> \<open>py_float\<close>, \<open>py_int\<close>: the built-in conversions from a string, \<open>None\<close>
    where they raise ValueError.
\<close>

datatype ndarray = Arr0 string | Arr1 "string list" | Arr2 "string list list"

record ext =
  Table_read :: "string list \<Rightarrow> string \<Rightarrow> error + table"
  cds_read :: "string \<Rightarrow> string \<Rightarrow> error + table"
  genfromtxt :: "string \<Rightarrow> error + ndarray"
  py_float :: "string \<Rightarrow> real option"
  py_int :: "string \<Rightarrow> int option"

text \<open>
  \<^verbatim>\<open>Table.read(path, format='ascii', names=...)\<close>: opens the path, parses, and
  returns a table that has exactly the requested column names (the reader raises
  otherwise).
\<close>

definition read_table :: "ext \<Rightarrow> disk \<Rightarrow> string list \<Rightarrow> path \<Rightarrow> error + table" where
  "read_table E fs names p =
     bindE (read_bytes fs p) (\<lambda>b.
     bindE (Table_read E names b) (\<lambda>t.
       if colnames t = names then Inr t else Inl InconsistentTableError))"

definition to_float :: "ext \<Rightarrow> string \<Rightarrow> error + real" where
  "to_float E s =
     (case py_float E s of
        None \<Rightarrow> Inl (ValueError ''could not convert string to float'')
      | Some x \<Rightarrow> Inr x)"

definition to_int :: "ext \<Rightarrow> string \<Rightarrow> error + int" where
  "to_int E s =
     (case py_int E s of
        None \<Rightarrow> Inl (ValueError ''invalid literal for int()'')
      | Some x \<Rightarrow> Inr x)"

text \<open>Iterating an array of strings: a 0-d array does not iterate, a 2-d one yields rows.\<close>

fun iter_strs :: "ndarray \<Rightarrow> error + string list" where
  "iter_strs (Arr0 s) = Inl TypeError"
| "iter_strs (Arr1 xs) = Inr xs"
| "iter_strs (Arr2 xss) = (if xss = [] then Inr [] else Inl AttributeError)"

text \<open>The format specification \<^verbatim>\<open>:08d\<close>: sign, then zeros up to eight characters.\<close>

function decimal :: "nat \<Rightarrow> string" where
  "decimal n =
     (if n < 10 then [''0123456789'' ! n] else decimal (n div 10) @ [''0123456789'' ! (n mod 10)])"
  by pat_completeness auto
termination
  by (relation "measure id") auto

declare decimal.simps [simp del]

definition format_08d :: "int \<Rightarrow> string" where
  "format_08d i =
     (if i < 0
      then ''-'' @ replicate (7 - length (decimal (nat (- i)))) (CHR ''0'') @ decimal (nat (- i))
      else replicate (8 - length (decimal (nat i))) (CHR ''0'') @ decimal (nat i))"

section \<open>Guards for missing local data\<close>

text \<open>
  \<^verbatim>\<open>require_data_path(*data_dirs)\<close> (sndata/\_utils.py): the loop raises at the first
  path that does not exist.
\<close>

fun require_data_path :: "disk \<Rightarrow> path list \<Rightarrow> error + unit" where
  "require_data_path fs [] = Inr ()"
| "require_data_path fs (data_dir # data_dirs) =
     (if \<not> path_exists fs data_dir then Inl NoDownloadedData
      else require_data_path fs data_dirs)"

definition split0 :: "char \<Rightarrow> string \<Rightarrow> string" where
  "split0 c s = (case split_on c s of [] \<Rightarrow> [] | x # xs \<Rightarrow> x)"

section \<open>DES SN3YR (sndata/des/\_sn3yr.py)\<close>

text \<open>
  Every release is a class whose paths hang off \<^verbatim>\<open>self.data_dir\<close>; the directory
  is a parameter here.

  Modelled from the spec: the base class \<^verbatim>\<open>DataRelease\<close> (sndata/\_base.py) is not
  among the sources. Its public \<^verbatim>\<open>get_available_ids\<close> and
  \<^verbatim>\<open>get_available_tables\<close>, which the releases call on themselves, are the standard
  retrieval interface for listing identifiers; they are taken to return what the
  release's own \<^verbatim>\<open>_get_available_ids\<close> and \<^verbatim>\<open>_get_available_tables\<close> return.
\<close>

definition format_sncosmo_table :: "table \<Rightarrow> error + table" where
  "format_sncosmo_table data_table =
     (let out_table = empty_table\<lparr>meta := meta data_table\<rparr> in
      bindE (get_col data_table ''JD'') (\<lambda>jd.
      bindE (set_col out_table ''time'' jd) (\<lambda>out_table.
      bindE (get_col data_table ''BAND'') (\<lambda>band.
      bindE (prefix_col ''des_sn3yr_'' band) (\<lambda>band.
      bindE (set_col out_table ''band'' band) (\<lambda>out_table.
      bindE (get_col data_table ''FLUXCAL'') (\<lambda>flux.
      bindE (set_col out_table ''flux'' flux) (\<lambda>out_table.
      bindE (get_col data_table ''FLUXCALERR'') (\<lambda>fluxerr.
      bindE (set_col out_table ''fluxerr'' fluxerr) (\<lambda>out_table.
      bindE (set_col out_table ''zp'' (NumCol (replicate (nrows data_table) 27.5))) (\<lambda>out_table.
      set_col out_table ''zpsys'' (StrCol (replicate (nrows data_table) ''ab'')))))))))))))"

definition SN3YR_photometry_dir :: "path \<Rightarrow> path" where
  "SN3YR_photometry_dir data_dir = join data_dir ''02-DATA_PHOTOMETRY/DES-SN3YR_DES''"

definition SN3YR_fits_dir :: "path \<Rightarrow> path" where
  "SN3YR_fits_dir data_dir = join data_dir ''04-BBCFITS''"

definition SN3YR_get_available_tables :: "string list" where
  "SN3YR_get_available_tables = [''SALT2mu_DES+LOWZ_C11.FITRES'', ''SALT2mu_DES+LOWZ_G10.FITRES'']"

definition SN3YR_table_names :: "string list" where
  "SN3YR_table_names =
     [''dummy_col'', ''CID'', ''CIDint'', ''IDSURVEY'', ''TYPE'', ''FIELD'',
      ''CUTFLAG_SNANA'', ''zHEL'', ''zHELERR'', ''zCMB'', ''zCMBERR'',
      ''zHD'', ''zHDERR'', ''VPEC'', ''VPECERR'', ''HOST_LOGMASS'',
      ''HOST_LOGMASS_ERR'', ''SNRMAX1'', ''SNRMAX2'', ''SNRMAX3'',
      ''PKMJD'',
      ''PKMJDERR'', ''x1'', ''x1ERR'', ''c'', ''cERR'', ''mB'', ''mBERR'', ''x0'',
      ''x0ERR'', ''COV_x1_c'', ''COV_x1_x0'', ''COV_c_x0'', ''NDOF'',
      ''FITCHI2'', ''FITPROB'', ''RA'', ''DECL'', ''TGAPMAX'', ''TrestMIN'',
      ''TrestMAX'', ''MWEBV'', ''m0obs_i'', ''m0obs_r'', ''em0obs_i'',
      ''em0obs_r'',
      ''MU'', ''MUMODEL'', ''MUERR'', ''MUERR_RAW'', ''MURES'', ''MUPULL'',
      ''M0DIF'',
      ''ERRCODE'', ''biasCor_mu'', ''biasCorErr_mu'', ''biasCor_mB'',
      ''biasCor_x1'', ''biasCor_c'', ''biasScale_muCOV'', ''IDSAMPLE'']"

text \<open>
  \<^verbatim>\<open>_load_table\<close>: the membership test comes first; the reader then drops the
  column listed in \<^verbatim>\<open>exclude_names\<close>.
\<close>

definition SN3YR_load_table :: "ext \<Rightarrow> disk \<Rightarrow> path \<Rightarrow> string \<Rightarrow> error + table" where
  "SN3YR_load_table E fs data_dir table_id =
     (if table_id \<notin> set SN3YR_get_available_tables
      then Inl (ValueError (''Table '' @ table_id @ '' is not available.''))
      else bindE (read_table E fs SN3YR_table_names (join (SN3YR_fits_dir data_dir) table_id))
             (\<lambda>data. remove_column data ''dummy_col''))"

definition SN3YR_get_available_ids :: "ext \<Rightarrow> disk \<Rightarrow> path \<Rightarrow> error + string list" where
  "SN3YR_get_available_ids E fs data_dir =
     (let target_list_path = join (SN3YR_photometry_dir data_dir) ''DES-SN3YR_DES.LIST'' in
      bindE (read_bytes fs target_list_path) (\<lambda>b.
      bindE (genfromtxt E b) (\<lambda>arr.
      bindE (iter_strs arr) (\<lambda>file_list.
      Inr (sort (map (\<lambda>f. rstrip ''.dat'' (lstrip ''des_'' f)) file_list))))))"

text \<open>\<^verbatim>\<open>float(lines[i].split()[j])\<close>\<close>

definition float_field :: "ext \<Rightarrow> string list \<Rightarrow> nat \<Rightarrow> nat \<Rightarrow> error + real" where
  "float_field E ls i j =
     bindE (item ls i) (\<lambda>l. bindE (item (py_split l) j) (\<lambda>w. to_float E w))"

definition SN3YR_data_names :: "string list" where
  "SN3YR_data_names =
     [''VARLIST:'', ''MJD'', ''BAND'', ''FIELD'', ''FLUXCAL'', ''FLUXCALERR'',
      ''ZPFLUX'', ''PSF'', ''SKYSIG'', ''GAIN'', ''PHOTFLAG'', ''PHOTPROB'']"

definition SN3YR_get_data_for_id ::
  "ext \<Rightarrow> disk \<Rightarrow> path \<Rightarrow> string \<Rightarrow> bool \<Rightarrow> error + table" where
  "SN3YR_get_data_for_id E fs data_dir obj_id format_table =
     bindE (SN3YR_get_available_ids E fs data_dir) (\<lambda>ids.
     if obj_id \<notin> set ids then Inl InvalidObjId
     else
       bindE (to_int E obj_id) (\<lambda>n.
       let file_path = join (SN3YR_photometry_dir data_dir) (''des_'' @ format_08d n @ ''.dat'') in
       bindE (read_table E fs SN3YR_data_names file_path) (\<lambda>data.
       bindE (get_col data ''MJD'') (\<lambda>mjd.
       bindE (convert_to_jd_col mjd) (\<lambda>jd.
       bindE (set_col data ''JD'' jd) (\<lambda>data.
       bindE (read_bytes fs file_path) (\<lambda>b.
       let table_meta_data = readlines b;
           data = meta_set data ''obj_id'' (VStr obj_id) in
       bindE (float_field E table_meta_data 7 1) (\<lambda>ra.
       let data = meta_set data ''ra'' (VNum ra) in
       bindE (float_field E table_meta_data 8 1) (\<lambda>dec.
       let data = meta_set data ''dec'' (VNum dec) in
       bindE (float_field E table_meta_data 13 1) (\<lambda>z.
       let data = meta_set data ''z'' (VNum z) in
       bindE (float_field E table_meta_data 13 3) (\<lambda>z_err.
       let data = meta_set data ''z_err'' (VNum z_err);
           data = meta_set data ''dtype'' (VStr ''photometric'') in
       bindE (meta_del data ''comments'') (\<lambda>data.
       if format_table then format_sncosmo_table data else Inr data))))))))))))"

section \<open>ESSENCE Narayan16 (sndata/essence/\_narayan16.py)\<close>

definition format_table_narayan16 :: "table \<Rightarrow> error + table" where
  "format_table_narayan16 data_table =
     (let out_table = empty_table\<lparr>meta := meta data_table\<rparr> in
      bindE (get_col data_table ''JD'') (\<lambda>jd.
      bindE (set_col out_table ''time'' jd) (\<lambda>out_table.
      bindE (get_col data_table ''Passband'') (\<lambda>band.
      bindE (prefix_col ''csp_dr3_'' band) (\<lambda>band.
      bindE (set_col out_table ''band'' band) (\<lambda>out_table.
      bindE (set_col out_table ''zp'' (NumCol (replicate (nrows data_table) 25))) (\<lambda>out_table.
      bindE (set_col out_table ''zpsys'' (StrCol (replicate (nrows data_table) ''ab''))) (\<lambda>out_table.
      bindE (get_col data_table ''Flux'') (\<lambda>flux.
      bindE (set_col out_table ''flux'' flux) (\<lambda>out_table.
      bindE (get_col data_table ''Fluxerr_hi'') (\<lambda>hi.
      bindE (get_col data_table ''Fluxerr_lo'') (\<lambda>lo.
      bindE (max_cols hi lo) (\<lambda>fluxerr.
      set_col out_table ''fluxerr'' fluxerr)))))))))))))"

definition Narayan16_band_names :: "string list" where
  "Narayan16_band_names = [''essence_narayan16_R'', ''essence_narayan16_I'']"

definition Narayan16_zero_point :: "real list" where
  "Narayan16_zero_point = map (\<lambda>b. 27.5) Narayan16_band_names"

definition Narayan16_photometry_dir :: "path \<Rightarrow> path" where
  "Narayan16_photometry_dir data_dir = join (join data_dir ''vizier'') ''lcs''"

definition Narayan16_get_available_ids :: "disk \<Rightarrow> path \<Rightarrow> error + string list" where
  "Narayan16_get_available_ids fs data_dir =
     bindE (require_data_path fs [Narayan16_photometry_dir data_dir]) (\<lambda>u.
     let files = Path_glob fs (Narayan16_photometry_dir data_dir) ''*.dat'' in
     Inr (sort (map (\<lambda>f. split0 (CHR ''.'') (basename f)) files)))"

text \<open>\<^verbatim>\<open>readline()\<close> number \<open>i\<close> of a freshly opened file: empty at end of file.\<close>

definition readline_at :: "string list \<Rightarrow> nat \<Rightarrow> string" where
  "readline_at ls i = (if i < length ls then ls ! i else [])"

definition Narayan16_data_names :: "string list" where
  "Narayan16_data_names =
     [''Observation'', ''MJD'', ''Passband'', ''Flux'', ''Fluxerr_lo'', ''Fluxerr_hi'']"

definition Narayan16_get_data_for_id ::
  "ext \<Rightarrow> disk \<Rightarrow> path \<Rightarrow> string \<Rightarrow> bool \<Rightarrow> error + table" where
  "Narayan16_get_data_for_id E fs data_dir obj_id format_table =
     bindE (Narayan16_get_available_ids fs data_dir) (\<lambda>ids.
     if obj_id \<notin> set ids then Inl InvalidObjId
     else
       let path = join (Narayan16_photometry_dir data_dir) (obj_id @ ''.W6yr.clean.nn2.Wstd.dat'') in
       bindE (read_table E fs Narayan16_data_names path) (\<lambda>data_table.
       bindE (get_col data_table ''MJD'') (\<lambda>mjd.
       bindE (convert_to_jd_col mjd) (\<lambda>jd.
       bindE (set_col data_table ''JD'' jd) (\<lambda>data_table.
       bindE (read_bytes fs path) (\<lambda>b.
       let infile = readlines b;
           keys = py_split (lstrip ''# '' (readline_at infile 0));
           vals = py_split (lstrip ''# '' (readline_at infile 1));
           data_table = fold (\<lambda>(k, v) t. meta_set t k (VStr v)) (zip keys vals) data_table in
       bindE (meta_pop data_table ''objid'') (\<lambda>(v, data_table).
       let data_table = meta_set data_table ''obj_id'' v in
       bindE (meta_del data_table ''comments'') (\<lambda>data_table.
       if format_table then format_table_narayan16 data_table else Inr data_table))))))))"

section \<open>CSP DR1 (sndata/csp/\_dr1.py)\<close>

text \<open>
  \<^verbatim>\<open>vstack([a, b])\<close> is astropy's. The source only stacks tables over the same seven
  column names: the result keeps the first table's column order, appends the rows, and
  merges the metadata (lists are concatenated, otherwise the later value wins). Columns
  of different dtype do not merge. For tables over different names astropy would mask
  the missing cells; the model has no masked cells and reports that case as a merge
  error too.
\<close>

fun append_col :: "column \<Rightarrow> column \<Rightarrow> error + column" where
  "append_col (NumCol xs) (NumCol ys) = Inr (NumCol (xs @ ys))"
| "append_col (StrCol xs) (StrCol ys) = Inr (StrCol (xs @ ys))"
| "append_col a b = Inl TableMergeError"

fun stack_cols :: "(string \<times> column) list \<Rightarrow> (string \<times> column) list \<Rightarrow> error + (string \<times> column) list" where
  "stack_cols [] bs = Inr []"
| "stack_cols ((n, c) # cs) bs =
     (case map_of bs n of
        None \<Rightarrow> Inl TableMergeError
      | Some c' \<Rightarrow>
          (case append_col c c' of
             Inl e \<Rightarrow> Inl e
           | Inr c2 \<Rightarrow>
               (case stack_cols cs bs of Inl e \<Rightarrow> Inl e | Inr r \<Rightarrow> Inr ((n, c2) # r))))"

fun merge_val :: "val \<Rightarrow> val \<Rightarrow> val" where
  "merge_val (VStrs xs) (VStrs ys) = VStrs (xs @ ys)"
| "merge_val u v = v"

fun merge_meta :: "(string \<times> val) list \<Rightarrow> (string \<times> val) list \<Rightarrow> (string \<times> val) list" where
  "merge_meta a [] = a"
| "merge_meta a ((k, v) # bs) =
     merge_meta (case map_of a k of None \<Rightarrow> a @ [(k, v)]
                 | Some u \<Rightarrow> AList.update k (merge_val u v) a) bs"

definition vstack :: "table \<Rightarrow> table \<Rightarrow> error + table" where
  "vstack a b =
     (if length (cols a) \<noteq> length (cols b) then Inl TableMergeError
      else bindE (stack_cols (cols a) (cols b)) (\<lambda>cs.
           Inr \<lparr>cols = cs, meta = merge_meta (meta a) (meta b)\<rparr>))"

definition DR1_spectra_dir :: "path \<Rightarrow> path" where
  "DR1_spectra_dir data_dir = join (join data_dir ''spectra'') ''CSP_spectra_DR1''"

text \<open>\<^verbatim>\<open>float(file_comments[i].lstrip(label))\<close>\<close>

definition comment_float :: "ext \<Rightarrow> string list \<Rightarrow> nat \<Rightarrow> string \<Rightarrow> error + real" where
  "comment_float E file_comments i label =
     bindE (item file_comments i) (\<lambda>c. to_float E (lstrip label c))"

definition DR1_read_file :: "ext \<Rightarrow> disk \<Rightarrow> path \<Rightarrow> error + real \<times> real \<times> table" where
  "DR1_read_file E fs path =
     bindE (if stem path = ''SN07bc_070409_b01_BAA_IM''
            then bindE (read_table E fs [''wavelength'', ''flux'', ''_''] path)
                   (\<lambda>data. remove_column data ''_'')
            else read_table E fs [''wavelength'', ''flux''] path) (\<lambda>data.
     bindE (meta_get data ''comments'') (\<lambda>comments.
     bindE (case comments of VStrs cs \<Rightarrow> Inr cs | VNone \<Rightarrow> Inl TypeError
            | VNum x \<Rightarrow> Inl TypeError | VStr x \<Rightarrow> Inl TypeError) (\<lambda>file_comments.
     bindE (comment_float E file_comments 1 ''Redshift: '') (\<lambda>redshift.
     bindE (comment_float E file_comments 2 ''JDate_of_max: '') (\<lambda>max_date.
     bindE (comment_float E file_comments 3 ''JDate_of_observation: '') (\<lambda>obs_date.
     bindE (comment_float E file_comments 4 ''Epoch: '') (\<lambda>epoch.
     case split_on (CHR ''_'') (stem path) of
       [a, b, w_range, telescope, instrument] \<Rightarrow>
         bindE (set_num data ''date'' obs_date) (\<lambda>data.
         bindE (set_num data ''epoch'' epoch) (\<lambda>data.
         bindE (set_str data ''wavelength_range'' w_range) (\<lambda>data.
         bindE (set_str data ''telescope'' telescope) (\<lambda>data.
         bindE (set_str data ''instrument'' instrument) (\<lambda>data.
         bindE (get_col data ''date'') (\<lambda>date.
         bindE (convert_to_jd_col date) (\<lambda>jd.
         bindE (set_col data ''date'' jd) (\<lambda>data.
         Inr (max_date, redshift, data)))))))))
     | _ \<Rightarrow> Inl (ValueError ''wrong number of values to unpack''))))))))"

text \<open>
  \<^verbatim>\<open>_get_available_ids\<close>: \<^verbatim>\<open>sorted(set(ids))\<close>, the duplicate-free list of the
  identifiers in ascending order.
\<close>

definition DR1_get_available_ids :: "disk \<Rightarrow> path \<Rightarrow> error + string list" where
  "DR1_get_available_ids fs data_dir =
     bindE (require_data_path fs [DR1_spectra_dir data_dir]) (\<lambda>u.
     let files = Path_glob fs (DR1_spectra_dir data_dir) ''SN*.dat'';
         ids = map (\<lambda>f. ''20'' @ lstrip ''SN'' (split0 (CHR ''_'') (basename f))) files
     in Inr (sort (remdups ids)))"

text \<open>
  \<^verbatim>\<open>rglob\<close> returns a generator, and the source tests the generator object itself
  (\<^verbatim>\<open>if not files\<close>): an object without \<^verbatim>\<open>__bool__\<close> and \<^verbatim>\<open>__len__\<close> is true,
  whatever it would yield.
\<close>

definition generator_truth :: "'a list \<Rightarrow> bool" where
  "generator_truth files = True"

text \<open>
  The loop of \<^verbatim>\<open>_get_data_for_id\<close>. The local \<^verbatim>\<open>redshift\<close> is bound by the loop
  body only: it is \<open>None\<close> here until a file has been read.
\<close>

fun DR1_read_all ::
  "ext \<Rightarrow> disk \<Rightarrow> path list \<Rightarrow> table \<Rightarrow> real option \<Rightarrow> error + table \<times> real option" where
  "DR1_read_all E fs [] out_table redshift = Inr (out_table, redshift)"
| "DR1_read_all E fs (path # files) out_table redshift =
     (case DR1_read_file E fs path of
        Inl e \<Rightarrow> Inl e
      | Inr (max_date, z, spectral_data) \<Rightarrow>
          (case vstack out_table spectral_data of
             Inl e \<Rightarrow> Inl e
           | Inr out_table' \<Rightarrow> DR1_read_all E fs files out_table' (Some z)))"

definition DR1_out_table :: table where
  "DR1_out_table =
     \<lparr>cols = [(''date'', NumCol []), (''wavelength'', NumCol []), (''flux'', NumCol []),
              (''epoch'', NumCol []), (''wavelength_range'', StrCol []),
              (''telescope'', StrCol []), (''instrument'', StrCol [])],
      meta = []\<rparr>"

definition DR1_get_data_for_id ::
  "ext \<Rightarrow> disk \<Rightarrow> path \<Rightarrow> string \<Rightarrow> bool \<Rightarrow> error + table" where
  "DR1_get_data_for_id E fs data_dir obj_id format_table =
     (let files = Path_rglob fs (DR1_spectra_dir data_dir) (''SN'' @ drop 2 obj_id @ ''_*.dat'') in
      if \<not> generator_truth files
      then Inl (ValueError (''No data found for obj_id '' @ obj_id))
      else
        bindE (DR1_read_all E fs files DR1_out_table None) (\<lambda>(out_table, redshift).
        let out_table = meta_set out_table ''obj_id'' (VStr obj_id);
            out_table = meta_set out_table ''ra'' VNone;
            out_table = meta_set out_table ''dec'' VNone in
        bindE (case redshift of None \<Rightarrow> Inl (UnboundLocalError ''redshift'')
               | Some z \<Rightarrow> Inr z) (\<lambda>z.
        let out_table = meta_set out_table ''z'' (VNum z);
            out_table = meta_set out_table ''z_err'' VNone in
        bindE (meta_del out_table ''comments'') (\<lambda>out_table.
        if format_table then rename_column out_table ''date'' ''time'' else Inr out_table))))"

section \<open>JLA Betoule14 (sndata/jla/betoule14/\_data\_parsing.py)\<close>

text \<open>
  Modelled from the spec: this module applies \<^verbatim>\<open>utils.require_data_path(dir)\<close> as a
  decorator, a form that is not among the sources. It is taken to signal missing local
  data as the function of the same name does: \<open>NoDownloadedData\<close> when the directory
  does not exist, before the decorated body runs. The directories of the absent
  \<^verbatim>\<open>_meta\<close> module are parameters.
\<close>

definition betoule14_get_available_ids :: "disk \<Rightarrow> path \<Rightarrow> error + string list" where
  "betoule14_get_available_ids fs photometry_dir =
     bindE (require_data_path fs [photometry_dir]) (\<lambda>u.
     let file_list = Path_glob fs photometry_dir ''*.list'' in
     Inr (sort (map (\<lambda>f. (let s = last (split_on (CHR ''-'') f) in take (length s - 5) s))
                  file_list)))"

text \<open>
  The header loop: lines that start with \<open>@\<close> fill \<^verbatim>\<open>meta_data\<close>; the first other
  line ends the loop (and is consumed), the remaining lines go to the table reader.
\<close>

fun read_header ::
  "string list \<Rightarrow> (string \<times> string) list \<Rightarrow> error + (string \<times> string) list \<times> string list" where
  "read_header [] meta_data = Inr (meta_data, [])"
| "read_header (line # rest) meta_data =
     (if startswith line ''@''
      then (let split_line = split_on (CHR '' '') (lstrip ''@'' line) in
            case item split_line 1 of
              Inl e \<Rightarrow> Inl e
            | Inr v \<Rightarrow> read_header rest (AList.update (split0 (CHR '' '') (lstrip ''@'' line)) v meta_data))
      else Inr (meta_data, rest))"

definition betoule14_names :: "string list" where
  "betoule14_names = [''Date'', ''Flux'', ''Fluxerr'', ''ZP'', ''Filter'', ''MagSys'']"

definition betoule14_get_data_for_id ::
  "ext \<Rightarrow> disk \<Rightarrow> path \<Rightarrow> string \<Rightarrow> bool \<Rightarrow> error + table" where
  "betoule14_get_data_for_id E fs photometry_dir obj_id format_table =
     bindE (require_data_path fs [photometry_dir]) (\<lambda>u.
     bindE (betoule14_get_available_ids fs photometry_dir) (\<lambda>ids.
     if obj_id \<notin> set ids then Inl InvalidObjId
     else
       let path = join photometry_dir (''lc-'' @ obj_id @ ''.list'') in
       bindE (read_bytes fs path) (\<lambda>b.
       bindE (read_header (readlines b) []) (\<lambda>(meta_data, rest).
       bindE (Table_read E betoule14_names (concat rest)) (\<lambda>t.
       bindE (if colnames t = betoule14_names then Inr t else Inl InconsistentTableError) (\<lambda>out_table.
       bindE (if format_table
              then bindE (rename_column out_table ''Date'' ''time'') (\<lambda>out_table.
                   bindE (rename_column out_table ''Flux'' ''flux'') (\<lambda>out_table.
                   bindE (rename_column out_table ''Fluxerr'' ''fluxerr'') (\<lambda>out_table.
                   bindE (rename_column out_table ''Filter'' ''band'') (\<lambda>out_table.
                   bindE (rename_column out_table ''ZP'' ''zp'') (\<lambda>out_table.
                   bindE (rename_column out_table ''MagSys'' ''zpsys'') (\<lambda>out_table.
                   bindE (get_col out_table ''time'') (\<lambda>time.
                   bindE (convert_to_jd_col time) (\<lambda>jd.
                   set_col out_table ''time'' jd))))))))
              else Inr out_table) (\<lambda>out_table.
       let out_table = meta_set out_table ''obj_id'' (VStr obj_id);
           out_table = meta_set out_table ''ra'' VNone;
           out_table = meta_set out_table ''dec'' VNone in
       bindE (case map_of meta_data ''Z_HELIO'' of None \<Rightarrow> Inl (KeyError ''Z_HELIO'')
              | Some s \<Rightarrow> to_float E s) (\<lambda>z.
       let out_table = meta_set out_table ''z'' (VNum z);
           out_table = meta_set out_table ''z_err'' VNone;
           out_table = meta_set out_table ''comments'' (VStr ''z represents the heliocentric redshift'')
       in Inr out_table))))))))"

section \<open>The older modules (SNData/csp)\<close>

text \<open>
  \<^verbatim>\<open>_check_for_data\<close> (csp/dr3) and \<^verbatim>\<open>_raise_for_data\<close> (csp/dr1): both test
  \<^verbatim>\<open>meta.data_dir.exists()\<close>.
\<close>

definition not_downloaded_message :: string where
  "not_downloaded_message =
     ''Data has not been downloaded for this survey. Please run the ``download_data`` function.''"

definition dr3_check_for_data :: "disk \<Rightarrow> path \<Rightarrow> error + unit" where
  "dr3_check_for_data fs data_dir =
     (if \<not> path_exists fs data_dir then Inl (RuntimeError not_downloaded_message) else Inr ())"

definition dr1_data_is_available :: "disk \<Rightarrow> path \<Rightarrow> bool" where
  "dr1_data_is_available fs data_dir = path_exists fs data_dir"

definition dr1_raise_for_data :: "disk \<Rightarrow> path \<Rightarrow> error + unit" where
  "dr1_raise_for_data fs data_dir =
     (if \<not> dr1_data_is_available fs data_dir then Inl (RuntimeError not_downloaded_message)
      else Inr ())"

text \<open>
  \<^verbatim>\<open>load_table\<close> of csp/dr3 tests \<^verbatim>\<open>table_path.exists\<close>, the bound method itself,
  not its result: a method object is true. \<^verbatim>\<open>ascii.read\<close> then opens the table file
  first and the ReadMe second.
\<close>

definition method_object_truth :: "(disk \<Rightarrow> path \<Rightarrow> bool) \<Rightarrow> bool" where
  "method_object_truth m = True"

definition ascii_read_cds :: "ext \<Rightarrow> disk \<Rightarrow> path \<Rightarrow> path \<Rightarrow> error + table" where
  "ascii_read_cds E fs table_path readme_path =
     bindE (read_bytes fs table_path) (\<lambda>tb.
     bindE (read_bytes fs readme_path) (\<lambda>rb. cds_read E tb rb))"

definition dr3_load_table :: "ext \<Rightarrow> disk \<Rightarrow> path \<Rightarrow> path \<Rightarrow> string \<Rightarrow> error + table" where
  "dr3_load_table E fs data_dir table_dir table_num =
     bindE (dr3_check_for_data fs data_dir) (\<lambda>u.
     let readme_path = join table_dir ''ReadMe'';
         table_path = join table_dir (''table'' @ table_num @ ''.dat'') in
     if \<not> method_object_truth path_exists
     then Inl (ValueError (''Table '' @ table_num @ '' is not available.''))
     else ascii_read_cds E fs table_path readme_path)"

text \<open>\<^verbatim>\<open>get_obj_ids\<close> of csp/dr3: a list comprehension over the result of \<^verbatim>\<open>glob\<close>.\<close>

definition dr3_get_obj_ids :: "disk \<Rightarrow> path \<Rightarrow> path \<Rightarrow> error + string list" where
  "dr3_get_obj_ids fs data_dir photometry_dir =
     bindE (dr3_check_for_data fs data_dir) (\<lambda>u.
     let files = glob_glob fs photometry_dir ''*.txt'' in
     Inr (map (\<lambda>f. lstrip ''SN'' (split0 (CHR ''_'') (basename f))) files))"

section \<open>Downloads (sndata/\_utils.py)\<close>

text \<open>
  The network answers the \<open>n\<close>-th request of a run for a URL with a connection
  failure, with another failure of the request, or with a status and a body; it is a
  parameter. The world is the disk, the warnings issued so far, and the number of
  requests made. The \<^verbatim>\<open>timeout\<close> argument only influences which answer the
  network gives and is left out.
\<close>

datatype response = ConnectionFailed | OtherFailure | Response nat string

record world =
  disk_of :: disk
  warnings :: "string list"
  requests :: nat

definition check_url :: "(nat \<Rightarrow> string \<Rightarrow> response) \<Rightarrow> world \<Rightarrow> string \<Rightarrow> (error + bool) \<times> world" where
  "check_url net w url =
     (case net (requests w) url of
        Response status body \<Rightarrow> (Inr True, w\<lparr>requests := requests w + 1\<rparr>)
      | ConnectionFailed \<Rightarrow>
          (Inr False, w\<lparr>warnings := warnings w @ [''Could not connect to '' @ url],
                         requests := requests w + 1\<rparr>)
      | OtherFailure \<Rightarrow> (Inl RequestException, w\<lparr>requests := requests w + 1\<rparr>))"

text \<open>Directories: the ancestors of a path, nearest last, and \<^verbatim>\<open>mkdir(parents=True, exist_ok=True)\<close>.\<close>

fun join_comps :: "string list \<Rightarrow> string" where
  "join_comps [] = []"
| "join_comps [x] = x"
| "join_comps (x # y # r) = x @ ''/'' @ join_comps (y # r)"

definition parent :: "path \<Rightarrow> path" where
  "parent p = join_comps (butlast (split_on (CHR ''/'') p))"

definition with_ancestors :: "path \<Rightarrow> path list" where
  "with_ancestors p =
     (let comps = split_on (CHR ''/'') p
      in filter (\<lambda>q. q \<noteq> []) (map (\<lambda>k. join_comps (take k comps)) [1..<length comps + 1]))"

fun mkdirs :: "disk \<Rightarrow> path list \<Rightarrow> error + disk" where
  "mkdirs fs [] = Inr fs"
| "mkdirs fs (d # ds) =
     (case map_of fs d of
        None \<Rightarrow> mkdirs (fs @ [(d, Dir)]) ds
      | Some Dir \<Rightarrow> mkdirs fs ds
      | Some (File w b) \<Rightarrow> Inl FileExistsError)"

definition mkdir_parents :: "disk \<Rightarrow> path \<Rightarrow> error + disk" where
  "mkdir_parents fs p = mkdirs fs (with_ancestors p)"

text \<open>
  \<^verbatim>\<open>open(path, 'wb')\<close> followed by one \<^verbatim>\<open>write\<close>: the file is created or
  truncated when it is opened, and holds the bytes after the write.
\<close>

definition open_wb :: "disk \<Rightarrow> path \<Rightarrow> error + disk" where
  "open_wb fs p =
     (case map_of fs p of
        None \<Rightarrow> (if map_of fs (parent p) = Some Dir \<or> parent p = []
                 then Inr (fs @ [(p, File True [])]) else Inl FileNotFoundError)
      | Some Dir \<Rightarrow> Inl IsADirectoryError
      | Some (File w b) \<Rightarrow>
          (if w then Inr (AList.update p (File True []) fs) else Inl PermissionError))"

definition write_file :: "disk \<Rightarrow> path \<Rightarrow> string \<Rightarrow> disk" where
  "write_file fs p content = AList.update p (File True content) fs"

text \<open>
  The second half of \<^verbatim>\<open>download_file\<close>: the request, \<^verbatim>\<open>raise_for_status\<close>, and
  the write, either to the file just opened at a path or to the caller's file object
  (whose bytes so far are \<open>buf\<close>). The result is what the file object then holds.
\<close>

datatype sink = ToPath path | ToObject string

definition fetch_to :: "(nat \<Rightarrow> string \<Rightarrow> response) \<Rightarrow> world \<Rightarrow> string \<Rightarrow> sink \<Rightarrow> (error + string) \<times> world" where
  "fetch_to net w url file_obj =
     (let w1 = w\<lparr>requests := requests w + 1\<rparr> in
      case net (requests w) url of
        ConnectionFailed \<Rightarrow> (Inl ConnectionError, w1)
      | OtherFailure \<Rightarrow> (Inl RequestException, w1)
      | Response status body \<Rightarrow>
          (if 400 \<le> status \<and> status < 600 then (Inl HTTPError, w1)
           else (case file_obj of
                   ToPath p \<Rightarrow> (Inr body, w1\<lparr>disk_of := write_file (disk_of w1) p body\<rparr>)
                 | ToObject buf \<Rightarrow> (Inr (buf @ body), w1))))"

text \<open>
  \<^verbatim>\<open>download_file(url, path, file_obj, force)\<close>. In
  \<^verbatim>\<open>not ((force or not path.exists()) and check_url(url))\<close> the \<^verbatim>\<open>and\<close> does not
  evaluate \<^verbatim>\<open>check_url\<close> when its left operand is false. The result is \<open>None\<close> when
  the download was skipped, and the bytes written otherwise.
\<close>

definition download_file ::
  "(nat \<Rightarrow> string \<Rightarrow> response) \<Rightarrow> world \<Rightarrow> string \<Rightarrow> path option \<Rightarrow> string option \<Rightarrow> bool
     \<Rightarrow> (error + string option) \<times> world" where
  "download_file net w url path file_obj force =
     (case file_obj of
        Some buf \<Rightarrow>
          (case fetch_to net w url (ToObject buf) of
             (Inl e, w1) \<Rightarrow> (Inl e, w1)
           | (Inr c, w1) \<Rightarrow> (Inr (Some c), w1))
      | None \<Rightarrow>
          (case path of
             None \<Rightarrow> (Inl (ValueError ''Must specify either ``path`` or ``file_obj``''), w)
           | Some p \<Rightarrow>
               (if \<not> (force \<or> \<not> path_exists (disk_of w) p) then (Inr None, w)
                else
                  (case check_url net w url of
                     (Inl e, w1) \<Rightarrow> (Inl e, w1)
                   | (Inr reachable, w1) \<Rightarrow>
                       (if \<not> reachable then (Inr None, w1)
                        else
                          (case mkdir_parents (disk_of w1) (parent p) of
                             Inl e \<Rightarrow> (Inl e, w1)
                           | Inr fs2 \<Rightarrow>
                               (case open_wb fs2 p of
                                  Inl e \<Rightarrow> (Inl e, w1\<lparr>disk_of := fs2\<rparr>)
                                | Inr fs3 \<Rightarrow>
                                    (case fetch_to net (w1\<lparr>disk_of := fs3\<rparr>) url (ToPath p) of
                                       (Inl e, w2) \<Rightarrow> (Inl e, w2)
                                     | (Inr c, w2) \<Rightarrow> (Inr (Some c), w2)))))))))"

text \<open>
  Extraction of one archive member (a regular file, with its name relative to the
  output directory): missing directories are created; writing over a directory or over
  a file that may not be overwritten fails with an \<^verbatim>\<open>OSError\<close>, which is what
  \<^verbatim>\<open>except IOError\<close> catches.
\<close>

definition extract_member :: "disk \<Rightarrow> path \<Rightarrow> string \<times> string \<Rightarrow> error + disk" where
  "extract_member fs out_dir ffile =
     (let target = join out_dir (fst ffile) in
      case mkdir_parents fs (parent target) of
        Inl e \<Rightarrow> Inl e
      | Inr fs1 \<Rightarrow>
          (case open_wb fs1 target of
             Inl e \<Rightarrow> Inl e
           | Inr fs2 \<Rightarrow> Inr (write_file fs2 target (snd ffile))))"

definition unlink :: "disk \<Rightarrow> path \<Rightarrow> error + disk" where
  "unlink fs p =
     (case map_of fs p of
        None \<Rightarrow> Inl FileNotFoundError
      | Some Dir \<Rightarrow> Inl IsADirectoryError
      | Some (File w b) \<Rightarrow> Inr (AList.delete p fs))"

text \<open>
  The loop over the archive. A failed extraction may already have created
  directories; the disk it leaves is not observable in the model beyond the error, so
  the retry starts from the disk before the attempt.
\<close>

fun extract_all :: "disk \<Rightarrow> path \<Rightarrow> (string \<times> string) list \<Rightarrow> error + disk" where
  "extract_all fs out_dir [] = Inr fs"
| "extract_all fs out_dir (ffile # rest) =
     (case extract_member fs out_dir ffile of
        Inr fs1 \<Rightarrow> extract_all fs1 out_dir rest
      | Inl e \<Rightarrow>
          (case unlink fs (join out_dir (fst ffile)) of
             Inl e1 \<Rightarrow> Inl e1
           | Inr fs1 \<Rightarrow>
               (case extract_member fs1 out_dir ffile of
                  Inl e2 \<Rightarrow> Inl e2
                | Inr fs2 \<Rightarrow> extract_all fs2 out_dir rest)))"

text \<open>
  \<^verbatim>\<open>download_tar(url, out_dir, mode, force)\<close>. \<open>untar\<close> stands for
  \<^verbatim>\<open>tarfile.open(fileobj=..., mode=mode)\<close>: the members of the archive, or an error.
  The temporary file has no name on the disk.
\<close>

definition download_tar ::
  "(nat \<Rightarrow> string \<Rightarrow> response) \<Rightarrow> (string \<Rightarrow> error + (string \<times> string) list) \<Rightarrow> world
     \<Rightarrow> string \<Rightarrow> path \<Rightarrow> bool \<Rightarrow> (error + unit) \<times> world" where
  "download_tar net untar w url out_dir force =
     (if \<not> (force \<or> \<not> path_exists (disk_of w) out_dir) then (Inr (), w)
      else
        (case check_url net w url of
           (Inl e, w1) \<Rightarrow> (Inl e, w1)
         | (Inr reachable, w1) \<Rightarrow>
             (if \<not> reachable then (Inr (), w1)
              else
                (case download_file net w1 url None (Some []) False of
                   (Inl e, w2) \<Rightarrow> (Inl e, w2)
                 | (Inr None, w2) \<Rightarrow> (Inr (), w2)
                 | (Inr (Some temp_file), w2) \<Rightarrow>
                     (case mkdir_parents (disk_of w2) out_dir of
                        Inl e \<Rightarrow> (Inl e, w2)
                      | Inr fs3 \<Rightarrow>
                          (case untar temp_file of
                             Inl e \<Rightarrow> (Inl e, w2\<lparr>disk_of := fs3\<rparr>)
                           | Inr data_archive \<Rightarrow>
                               (case extract_all fs3 out_dir data_archive of
                                  Inl e \<Rightarrow> (Inl e, w2\<lparr>disk_of := fs3\<rparr>)
                                | Inr fs4 \<Rightarrow> (Inr (), w2\<lparr>disk_of := fs4\<rparr>))))))))"

section \<open>The copying cache (sndata/\_utils.py)\<close>

text \<open>
  Python values are objects in a store, and a variable holds an address. The state of
  a function decorated with \<^verbatim>\<open>lru_copy_cache\<close> is the store, the entries of the
  underlying \<^verbatim>\<open>functools.lru_cache\<close> (key and address of the cached object, most
  recently used first), the number of times the wrapped function has run, and the
  addresses handed out to callers so far.

  The wrapped function \<open>f\<close> need not be pure: \<open>f k n\<close> is what it returns for the
  arguments \<open>k\<close> when it runs for the \<open>n\<close>-th time, as a fresh object. A stored
  value is self-contained, so \<^verbatim>\<open>deepcopy\<close> is a new object with the same value.
  \<^verbatim>\<open>maxsize\<close> is \<open>None\<close> or a bound (functools reads a negative bound as 0);
  \<^verbatim>\<open>typed\<close> only decides which argument tuples are the same key and is left out.
\<close>

record ('k, 'v) cache_state =
  heap :: "nat \<Rightarrow> 'v option"
  next_addr :: nat
  entries :: "('k \<times> nat) list"
  invocations :: nat
  handed_out :: "nat list"

definition init_state :: "('k, 'v) cache_state" where
  "init_state = \<lparr>heap = (\<lambda>a. None), next_addr = 0, entries = [], invocations = 0, handed_out = []\<rparr>"

text \<open>Running \<open>f\<close>: its result is a new object.\<close>

definition invoke :: "('k \<Rightarrow> nat \<Rightarrow> 'v) \<Rightarrow> ('k, 'v) cache_state \<Rightarrow> 'k \<Rightarrow> nat \<times> ('k, 'v) cache_state" where
  "invoke f s k =
     (next_addr s,
      s\<lparr>heap := (heap s)(next_addr s := Some (f k (invocations s))),
        next_addr := Suc (next_addr s),
        invocations := Suc (invocations s)\<rparr>)"

text \<open>
  \<^verbatim>\<open>functools.lru_cache(maxsize, typed)(f)\<close>: with bound 0 nothing is cached; a hit
  returns the cached object itself and makes the entry the most recent; a miss runs
  \<open>f\<close>, stores the object and, under a bound, drops the least recently used entries
  beyond it.
\<close>

definition cached_func ::
  "nat option \<Rightarrow> ('k \<Rightarrow> nat \<Rightarrow> 'v) \<Rightarrow> ('k, 'v) cache_state \<Rightarrow> 'k \<Rightarrow> nat \<times> ('k, 'v) cache_state" where
  "cached_func maxsize f s k =
     (if maxsize = Some 0 then invoke f s k
      else
        (case map_of (entries s) k of
           Some a \<Rightarrow> (a, s\<lparr>entries := (k, a) # AList.delete k (entries s)\<rparr>)
         | None \<Rightarrow>
             (let (a, s1) = invoke f s k;
                  es = (k, a) # entries s1
              in (a, s1\<lparr>entries := (case maxsize of None \<Rightarrow> es | Some m \<Rightarrow> take m es)\<rparr>))))"

definition deepcopy :: "('k, 'v) cache_state \<Rightarrow> nat \<Rightarrow> nat \<times> ('k, 'v) cache_state" where
  "deepcopy s a =
     (next_addr s,
      s\<lparr>heap := (heap s)(next_addr s := heap s a), next_addr := Suc (next_addr s)\<rparr>)"

text \<open>
  \<^verbatim>\<open>lru_copy_cache(maxsize, typed, copy)(f)\<close>, called with the arguments \<open>k\<close>:
  without \<^verbatim>\<open>copy\<close> it is the plain cache; with it, the wrapper returns
  \<^verbatim>\<open>deepcopy(cached_func(*args, **kwargs))\<close>.
\<close>

definition lru_copy_cache ::
  "nat option \<Rightarrow> bool \<Rightarrow> ('k \<Rightarrow> nat \<Rightarrow> 'v) \<Rightarrow> ('k, 'v) cache_state \<Rightarrow> 'k \<Rightarrow> nat \<times> ('k, 'v) cache_state" where
  "lru_copy_cache maxsize copy f s k =
     (if \<not> copy
      then (let (a, s1) = cached_func maxsize f s k
            in (a, s1\<lparr>handed_out := a # handed_out s1\<rparr>))
      else (let (a, s1) = cached_func maxsize f s k;
                (b, s2) = deepcopy s1 a
            in (b, s2\<lparr>handed_out := b # handed_out s2\<rparr>)))"

text \<open>
  What callers do between two calls: call the function again, or mutate an object they
  were handed (they hold no other address of the store).
\<close>

datatype ('k, 'v) event = Call 'k | Mutate nat 'v

fun step ::
  "nat option \<Rightarrow> bool \<Rightarrow> ('k \<Rightarrow> nat \<Rightarrow> 'v) \<Rightarrow> ('k, 'v) event \<Rightarrow> ('k, 'v) cache_state \<Rightarrow> ('k, 'v) cache_state" where
  "step maxsize copy f (Call k) s = snd (lru_copy_cache maxsize copy f s k)"
| "step maxsize copy f (Mutate a v) s =
     (if a \<in> set (handed_out s) then s\<lparr>heap := (heap s)(a := Some v)\<rparr> else s)"

fun run ::
  "nat option \<Rightarrow> bool \<Rightarrow> ('k \<Rightarrow> nat \<Rightarrow> 'v) \<Rightarrow> ('k, 'v) event list \<Rightarrow> ('k, 'v) cache_state \<Rightarrow> ('k, 'v) cache_state" where
  "run maxsize copy f [] s = s"
| "run maxsize copy f (e # es) s = run maxsize copy f es (step maxsize copy f e s)"

text \<open>The value a call returns: what the store holds at the returned address.\<close>

definition returned ::
  "nat option \<Rightarrow> bool \<Rightarrow> ('k \<Rightarrow> nat \<Rightarrow> 'v) \<Rightarrow> ('k, 'v) cache_state \<Rightarrow> 'k \<Rightarrow> 'v option" where
  "returned maxsize copy f s k =
     (let (a, s1) = lru_copy_cache maxsize copy f s k in heap s1 a)"

text \<open>The entry for \<open>k\<close> stays in the cache during the events \<open>es\<close>.\<close>

fun stays ::
  "nat option \<Rightarrow> bool \<Rightarrow> ('k \<Rightarrow> nat \<Rightarrow> 'v) \<Rightarrow> 'k \<Rightarrow> ('k, 'v) event list \<Rightarrow> ('k, 'v) cache_state \<Rightarrow> bool" where
  "stays maxsize copy f k [] s = (map_of (entries s) k \<noteq> None)"
| "stays maxsize copy f k (e # es) s =
     (map_of (entries s) k \<noteq> None \<and> stays maxsize copy f k es (step maxsize copy f e s))"

text \<open>
  The states the decorated function can be in: cached objects and handed-out objects
  are allocated, and no cached object has been handed out.
\<close>

definition separated :: "('k, 'v) cache_state \<Rightarrow> bool" where
  "separated s =
     (list_all (\<lambda>(k, a). a < next_addr s \<and> a \<notin> set (handed_out s)) (entries s)
      \<and> list_all (\<lambda>a. a < next_addr s) (handed_out s))"

section \<open>Sample data\<close>

text \<open>
  A small disk for each release and stand-ins for the library readers, for running the
  functions above on concrete inputs: the table reader returns one row under the
  requested names, and the numeric conversions know the literals that occur in the
  sample files.
\<close>

definition sample_comments :: "string list" where
  "sample_comments =
     [''SN: 2005el'', ''Redshift: 0.015'', ''JDate_of_max: 2453647.0'',
      ''JDate_of_observation: 2453650.5'', ''Epoch: 3.5'']"

definition sample_ext :: ext where
  "sample_ext =
     \<lparr>Table_read = (\<lambda>names b.
        Inr \<lparr>cols = map (\<lambda>n. (n, if n \<in> set [''VARLIST:'', ''BAND'', ''FIELD'', ''Passband'', ''Filter'', ''MagSys'']
                                    then StrCol [''r''] else NumCol [53500])) names,
             meta = [(''comments'', VStrs sample_comments)]\<rparr>),
      cds_read = (\<lambda>t r. Inr empty_table),
      genfromtxt = (\<lambda>b. Inr (Arr1 (py_split b))),
      py_float = map_of [(''0.015'', 0.015), (''2453647.0'', 2453647), (''2453650.5'', 2453650.5),
                         (''3.5'', 3.5), (''42.0'', 42), (''-0.5'', - 0.5), (''0.35'', 0.35),
                         (''0.01'', 0.01), (''0.12\<newline>'', 0.12)],
      py_int = map_of [(''01248677'', 1248677)]\<rparr>"

definition des_disk :: disk where
  "des_disk =
     [(''/des'', Dir),
      (''/des/02-DATA_PHOTOMETRY'', Dir),
      (''/des/02-DATA_PHOTOMETRY/DES-SN3YR_DES'', Dir),
      (''/des/02-DATA_PHOTOMETRY/DES-SN3YR_DES/DES-SN3YR_DES.LIST'', File True ''des_01248677.dat\<newline>''),
      (''/des/02-DATA_PHOTOMETRY/DES-SN3YR_DES/des_01248677.dat'',
         File True ''SURVEY: DES\<newline>SNID: 1248677\<newline>IAUC: UNKNOWN\<newline>PHOTOMETRY_VERSION: DES\<newline>SNTYPE: 1\<newline>FILTERS: griz\<newline>MWEBV: 0.02\<newline>RA: 42.0 deg\<newline>DECL: -0.5 deg\<newline>FAKE: 0\<newline>PEAKMJD: 56950\<newline>HOSTGAL_OBJID: 1\<newline>HOSTGAL_PHOTOZ: 0.3\<newline>REDSHIFT_FINAL: 0.35 +- 0.01\<newline>'')]"

definition des_sample_table :: table where
  "des_sample_table =
     \<lparr>cols = [(''time'', NumCol [2453500.5]), (''band'', StrCol [''des_sn3yr_r'']),
              (''flux'', NumCol [53500]), (''fluxerr'', NumCol [53500]),
              (''zp'', NumCol [27.5]), (''zpsys'', StrCol [''ab''])],
      meta = [(''obj_id'', VStr ''01248677''), (''ra'', VNum 42), (''dec'', VNum (- 0.5)),
              (''z'', VNum 0.35), (''z_err'', VNum 0.01), (''dtype'', VStr ''photometric'')]\<rparr>"

definition essence_disk :: disk where
  "essence_disk =
     [(''/essence'', Dir),
      (''/essence/vizier'', Dir),
      (''/essence/vizier/lcs'', Dir),
      (''/essence/vizier/lcs/b004.W6yr.clean.nn2.Wstd.dat'',
         File True ''# objid ra dec\<newline># b004 42.0 -0.5\<newline>'')]"

definition essence_sample_table :: table where
  "essence_sample_table =
     \<lparr>cols = [(''time'', NumCol [2453500.5]), (''band'', StrCol [''csp_dr3_r'']),
              (''zp'', NumCol [25]), (''zpsys'', StrCol [''ab'']),
              (''flux'', NumCol [53500]), (''fluxerr'', NumCol [53500])],
      meta = [(''ra'', VStr ''42.0''), (''dec'', VStr ''-0.5''), (''obj_id'', VStr ''b004'')]\<rparr>"

definition csp_disk :: disk where
  "csp_disk =
     [(''/csp'', Dir),
      (''/csp/spectra'', Dir),
      (''/csp/spectra/CSP_spectra_DR1'', Dir),
      (''/csp/spectra/CSP_spectra_DR1/SN05el_051001_b01_DUP_WF.dat'', File True [])]"

definition csp_sample_table :: table where
  "csp_sample_table =
     \<lparr>cols = [(''time'', NumCol [2453650.5]), (''wavelength'', NumCol [53500]),
              (''flux'', NumCol [53500]), (''epoch'', NumCol [3.5]),
              (''wavelength_range'', StrCol [''b01'']), (''telescope'', StrCol [''DUP'']),
              (''instrument'', StrCol [''WF''])],
      meta = [(''obj_id'', VStr ''2005el''), (''ra'', VNone), (''dec'', VNone),
              (''z'', VNum 0.015), (''z_err'', VNone)]\<rparr>"

definition jla_disk :: disk where
  "jla_disk =
     [(''/jla'', Dir),
      (''/jla/lc-SN2005el.list'',
         File True ''@SN 2005el\<newline>@Z_HELIO 0.12\<newline>#Date :\<newline>53500 1 0.1 27.5 r ab\<newline>'')]"

definition jla_sample_table :: table where
  "jla_sample_table =
     \<lparr>cols = [(''time'', NumCol [2453500.5]), (''flux'', NumCol [53500]),
              (''fluxerr'', NumCol [53500]), (''zp'', NumCol [53500]),
              (''band'', StrCol [''r'']), (''zpsys'', StrCol [''r''])],
      meta = [(''comments'', VStr ''z represents the heliocentric redshift''),
              (''obj_id'', VStr ''SN2005el''), (''ra'', VNone), (''dec'', VNone),
              (''z'', VNum 0.12), (''z_err'', VNone)]\<rparr>"

definition essence_raw_table :: table where
  "essence_raw_table =
     \<lparr>cols = [(''Observation'', NumCol [1, 2]), (''MJD'', NumCol [53500, 53501]),
              (''Passband'', StrCol [''R'', ''I'']), (''Flux'', NumCol [10, 12]),
              (''Fluxerr_lo'', NumCol [1, 3]), (''Fluxerr_hi'', NumCol [2, 1]),
              (''JD'', NumCol [2453500.5, 2453501.5])],
      meta = [(''obj_id'', VStr ''b004'')]\<rparr>"

definition essence_formatted_table :: table where
  "essence_formatted_table =
     \<lparr>cols = [(''time'', NumCol [2453500.5, 2453501.5]),
              (''band'', StrCol [''csp_dr3_R'', ''csp_dr3_I'']),
              (''zp'', NumCol [25, 25]), (''zpsys'', StrCol [''ab'', ''ab'']),
              (''flux'', NumCol [10, 12]), (''fluxerr'', NumCol [2, 3])],
      meta = [(''obj_id'', VStr ''b004'')]\<rparr>"

text \<open>
  A function that is not pure, for the cache: it returns how often it has run before,
  as a function that reads a changing file returns what the file holds at the time.
\<close>

definition call_counter :: "string \<Rightarrow> nat \<Rightarrow> nat" where
  "call_counter k n = n"

section \<open>Properties of the conversions\<close>

lemma convert_to_jd_lower_bound: "0 \<le> d \<Longrightarrow> mjd_offset \<le> convert_to_jd d"
  by (simp add: convert_to_jd_def Let_def snoopy_offset_def mjd_offset_def)

lemma convert_to_jd_fixed: "mjd_offset \<le> d \<Longrightarrow> convert_to_jd d = d"
  by (simp add: convert_to_jd_def Let_def snoopy_offset_def mjd_offset_def)

text \<open>
  C2. For a non-negative date \<open>d\<close>, \<^verbatim>\<open>convert_to_jd\<close> returns
  \<open>d + 53000 + 2400000.5\<close> below 53000, \<open>d + 2400000.5\<close> from 53000 up to
  (excluding) 2400000.5, and \<open>d\<close> itself from 2400000.5 on; hence converting twice is
  the same as converting once.
\<close>

theorem convert_to_jd_cases_idempotent:
  assumes "0 \<le> d"
  shows "(d < 53000 \<longrightarrow> convert_to_jd d = d + 53000 + 2400000.5)
       \<and> (53000 \<le> d \<and> d < 2400000.5 \<longrightarrow> convert_to_jd d = d + 2400000.5)
       \<and> (2400000.5 \<le> d \<longrightarrow> convert_to_jd d = d)
       \<and> convert_to_jd (convert_to_jd d) = convert_to_jd d"
proof -
  have cases: "(d < 53000 \<longrightarrow> convert_to_jd d = d + 53000 + 2400000.5)
       \<and> (53000 \<le> d \<and> d < 2400000.5 \<longrightarrow> convert_to_jd d = d + 2400000.5)
       \<and> (2400000.5 \<le> d \<longrightarrow> convert_to_jd d = d)"
    by (simp add: convert_to_jd_def Let_def snoopy_offset_def mjd_offset_def)
  have "convert_to_jd (convert_to_jd d) = convert_to_jd d"
    using convert_to_jd_fixed [OF convert_to_jd_lower_bound [OF assms]] .
  with cases show ?thesis by blast
qed

theorem convert_to_jd_cases_idempotent_witness:
  "convert_to_jd 500 = 2453500.5
   \<and> convert_to_jd 53500 = 2453500.5
   \<and> convert_to_jd 2453500.5 = 2453500.5
   \<and> convert_to_jd (convert_to_jd 500) = convert_to_jd 500"
  using convert_to_jd_cases_idempotent [of 500]
        convert_to_jd_cases_idempotent [of 53500]
        convert_to_jd_cases_idempotent [of "2453500.5"]
  by simp

lemma hourangle_dec_plus:
  "dec_sign \<noteq> ''-'' \<Longrightarrow>
   snd (hourangle_to_degrees rah ram ras dec_sign decd decm decs)
     = decd + decm / 60 + decs / 3600"
  by (simp add: hourangle_to_degrees_def Let_def)

lemma hourangle_dec_minus:
  "snd (hourangle_to_degrees rah ram ras ''-'' decd decm decs)
     = - decd + decm / 60 + decs / 3600"
  by (simp add: hourangle_to_degrees_def Let_def)

text \<open>
  C7. The claim asks for \<open>sign * (decd + decm/60 + decs/3600)\<close>. At
  \<open>-12\<degree> 30' 00''\<close> the source returns \<open>-11.5\<close>, not \<open>-12.5\<close>: the sign
  multiplies the degrees term only.
\<close>

theorem hourangle_to_degrees_sign_on_degrees_only:
  "snd (hourangle_to_degrees 0 0 0 ''-'' 12 30 0) = - 11.5
   \<and> snd (hourangle_to_degrees 0 0 0 ''-'' 12 30 0) \<noteq> (- 1) * (12 + 30 / 60 + 0 / 3600)"
  by (simp add: hourangle_to_degrees_def Let_def)

section \<open>Identifier lists and lookups\<close>

lemma bindE_simps [simp]:
  "bindE (Inl e) f = Inl e"
  "bindE (Inr x) f = f x"
  by (simp_all add: bindE_def)

lemma bindE_eq_Inr: "bindE m f = Inr y \<longleftrightarrow> (\<exists>x. m = Inr x \<and> f x = Inr y)"
  by (cases m) simp_all

text \<open>The releases that sort: the list is in ascending order; CSP DR1 also removes duplicates.\<close>

lemma DR1_get_available_ids_sorted_distinct:
  "DR1_get_available_ids fs data_dir = Inr ids \<Longrightarrow> sorted ids \<and> distinct ids"
  by (auto simp: DR1_get_available_ids_def bindE_eq_Inr Let_def)

lemma Narayan16_get_available_ids_sorted:
  "Narayan16_get_available_ids fs data_dir = Inr ids \<Longrightarrow> sorted ids"
  by (auto simp: Narayan16_get_available_ids_def bindE_eq_Inr Let_def)

lemma SN3YR_get_available_ids_sorted:
  "SN3YR_get_available_ids E fs data_dir = Inr ids \<Longrightarrow> sorted ids"
  by (auto simp: SN3YR_get_available_ids_def bindE_eq_Inr Let_def)

lemma betoule14_get_available_ids_sorted:
  "betoule14_get_available_ids fs photometry_dir = Inr ids \<Longrightarrow> sorted ids"
  by (auto simp: betoule14_get_available_ids_def bindE_eq_Inr Let_def)

text \<open>
  C5. \<^verbatim>\<open>get_obj_ids\<close> of the older csp/dr3 module returns the identifiers in the
  order of the directory listing: with the file of 2005el listed before that of 2004ef
  the result is not in ascending order.
\<close>

theorem dr3_get_obj_ids_glob_order:
  "dr3_get_obj_ids
     [(''/data'', Dir), (''/data/DR3'', Dir),
      (''/data/DR3/SN2005el_snpy.txt'', File True []),
      (''/data/DR3/SN2004ef_snpy.txt'', File True [])]
     ''/data'' ''/data/DR3'' = Inr [''2005el'', ''2004ef'']
   \<and> \<not> sorted [''2005el'', ''2004ef'']"
  by (simp add: dr3_get_obj_ids_def dr3_check_for_data_def path_exists_def glob_glob_def
      children_def join_def startswith_def lstrip_def split0_def basename_def)

text \<open>The three releases that test membership raise \<open>InvalidObjId\<close> for an unlisted identifier.\<close>

lemma SN3YR_unknown_id:
  "SN3YR_get_available_ids E fs data_dir = Inr ids \<Longrightarrow> obj_id \<notin> set ids \<Longrightarrow>
   SN3YR_get_data_for_id E fs data_dir obj_id format_table = Inl InvalidObjId"
  by (simp add: SN3YR_get_data_for_id_def)

lemma Narayan16_unknown_id:
  "Narayan16_get_available_ids fs data_dir = Inr ids \<Longrightarrow> obj_id \<notin> set ids \<Longrightarrow>
   Narayan16_get_data_for_id E fs data_dir obj_id format_table = Inl InvalidObjId"
  by (simp add: Narayan16_get_data_for_id_def)

lemma betoule14_unknown_id:
  "betoule14_get_available_ids fs photometry_dir = Inr ids \<Longrightarrow> obj_id \<notin> set ids \<Longrightarrow>
   betoule14_get_data_for_id E fs photometry_dir obj_id format_table = Inl InvalidObjId"
  by (auto simp: betoule14_get_data_for_id_def betoule14_get_available_ids_def bindE_eq_Inr
      split: sum.splits)

lemma DR1_no_files:
  "Path_rglob fs (DR1_spectra_dir data_dir) (''SN'' @ drop 2 obj_id @ ''_*.dat'') = [] \<Longrightarrow>
   DR1_get_data_for_id E fs data_dir obj_id format_table = Inl (UnboundLocalError ''redshift'')"
  by (simp add: DR1_get_data_for_id_def generator_truth_def Let_def)

text \<open>
  C3. CSP DR1 with one spectrum of 2005el on disk: the identifier \<open>2099zz\<close> is not
  in the list of available identifiers, and \<^verbatim>\<open>_get_data_for_id\<close> does not reach its
  \<^verbatim>\<open>raise ValueError('No data found ...')\<close>; it fails on the unbound local
  \<^verbatim>\<open>redshift\<close>.
\<close>

theorem DR1_unknown_id_unbound_local:
  "DR1_get_available_ids
     [(''/data'', Dir), (''/data/spectra'', Dir), (''/data/spectra/CSP_spectra_DR1'', Dir),
      (''/data/spectra/CSP_spectra_DR1/SN05el_051001_b01_DUP_WF.dat'', File True [])]
     ''/data'' = Inr [''2005el'']
   \<and> DR1_get_data_for_id E
     [(''/data'', Dir), (''/data/spectra'', Dir), (''/data/spectra/CSP_spectra_DR1'', Dir),
      (''/data/spectra/CSP_spectra_DR1/SN05el_051001_b01_DUP_WF.dat'', File True [])]
     ''/data'' ''2099zz'' True = Inl (UnboundLocalError ''redshift'')"
  by (simp add: DR1_get_available_ids_def DR1_get_data_for_id_def generator_truth_def Let_def
      DR1_spectra_dir_def path_exists_def Path_glob_def Path_rglob_def children_def join_def
      lstrip_def split0_def basename_def)

section \<open>Published tables\<close>

lemma SN3YR_load_table_unknown:
  "table_id \<notin> set SN3YR_get_available_tables \<Longrightarrow>
   SN3YR_load_table E fs data_dir table_id = Inl (ValueError (''Table '' @ table_id @ '' is not available.''))"
  by (simp add: SN3YR_load_table_def)

text \<open>
  C4. \<^verbatim>\<open>load_table\<close> of the older csp/dr3 module, with the data downloaded and only
  table 1 on disk: asking for table 99 does not raise the ValueError; the reader fails
  on the missing file.
\<close>

theorem dr3_load_table_missing_table:
  "dr3_load_table E
     [(''/data'', Dir), (''/data/tables'', Dir),
      (''/data/tables/ReadMe'', File True []),
      (''/data/tables/table1.dat'', File True [])]
     ''/data'' ''/data/tables'' ''99'' = Inl FileNotFoundError"
  by (simp add: dr3_load_table_def dr3_check_for_data_def path_exists_def method_object_truth_def
      ascii_read_cds_def read_bytes_def join_def)

section \<open>Missing local data\<close>

lemma require_data_path_Inl:
  "require_data_path fs ds = Inl e \<longleftrightarrow> e = NoDownloadedData \<and> (\<exists>d\<in>set ds. \<not> path_exists fs d)"
  by (induction ds) auto

lemma require_data_path_Inr:
  "require_data_path fs ds = Inr u \<longleftrightarrow> (\<forall>d\<in>set ds. path_exists fs d)"
  by (induction ds) auto

text \<open>
  C6. \<^verbatim>\<open>require_data_path\<close> raises \<open>NoDownloadedData\<close> exactly when one of its
  paths does not exist, and returns otherwise. The operations that start with a guard
  answer with the guard's error when its directory is missing, whatever else the disk
  holds and whatever the readers \<open>E\<close> would return for any file:
  \<^verbatim>\<open>_get_available_ids\<close> of CSP DR1 and of ESSENCE Narayan16 with
  \<open>NoDownloadedData\<close>; \<^verbatim>\<open>_check_for_data\<close>, \<^verbatim>\<open>load_table\<close>, \<^verbatim>\<open>get_obj_ids\<close> of
  the older csp/dr3 module and \<^verbatim>\<open>_raise_for_data\<close> of csp/dr1 with the RuntimeError
  that says the data has not been downloaded.
\<close>

theorem require_data_path_guard:
  "(require_data_path fs data_dirs = Inl NoDownloadedData \<longleftrightarrow> (\<exists>d\<in>set data_dirs. \<not> path_exists fs d))
   \<and> (require_data_path fs data_dirs = Inr () \<longleftrightarrow> (\<forall>d\<in>set data_dirs. path_exists fs d))
   \<and> (\<not> path_exists fs (DR1_spectra_dir data_dir) \<longrightarrow>
        DR1_get_available_ids fs data_dir = Inl NoDownloadedData)
   \<and> (\<not> path_exists fs (Narayan16_photometry_dir data_dir) \<longrightarrow>
        Narayan16_get_available_ids fs data_dir = Inl NoDownloadedData)
   \<and> (\<not> path_exists fs data_dir \<longrightarrow>
        dr3_check_for_data fs data_dir = Inl (RuntimeError not_downloaded_message)
        \<and> dr3_load_table E fs data_dir table_dir table_num = Inl (RuntimeError not_downloaded_message)
        \<and> dr3_get_obj_ids fs data_dir photometry_dir = Inl (RuntimeError not_downloaded_message)
        \<and> dr1_raise_for_data fs data_dir = Inl (RuntimeError not_downloaded_message))"
proof -
  have a: "require_data_path fs data_dirs = Inl NoDownloadedData \<longleftrightarrow> (\<exists>d\<in>set data_dirs. \<not> path_exists fs d)"
    by (simp add: require_data_path_Inl)
  have b: "require_data_path fs data_dirs = Inr () \<longleftrightarrow> (\<forall>d\<in>set data_dirs. path_exists fs d)"
    by (simp add: require_data_path_Inr)
  have c: "\<not> path_exists fs (DR1_spectra_dir data_dir) \<longrightarrow>
        DR1_get_available_ids fs data_dir = Inl NoDownloadedData"
    by (simp add: DR1_get_available_ids_def)
  have d: "\<not> path_exists fs (Narayan16_photometry_dir data_dir) \<longrightarrow>
        Narayan16_get_available_ids fs data_dir = Inl NoDownloadedData"
    by (simp add: Narayan16_get_available_ids_def)
  have e: "\<not> path_exists fs data_dir \<longrightarrow>
        dr3_check_for_data fs data_dir = Inl (RuntimeError not_downloaded_message)
        \<and> dr3_load_table E fs data_dir table_dir table_num = Inl (RuntimeError not_downloaded_message)
        \<and> dr3_get_obj_ids fs data_dir photometry_dir = Inl (RuntimeError not_downloaded_message)
        \<and> dr1_raise_for_data fs data_dir = Inl (RuntimeError not_downloaded_message)"
    by (simp add: dr3_check_for_data_def dr3_load_table_def dr3_get_obj_ids_def
        dr1_raise_for_data_def dr1_data_is_available_def)
  from a b c d e show ?thesis by blast
qed

theorem require_data_path_guard_witness:
  "require_data_path [(''/data'', Dir)] [''/data'', ''/data/spectra''] = Inl NoDownloadedData
   \<and> require_data_path [(''/data'', Dir)] [''/data''] = Inr ()
   \<and> DR1_get_available_ids [(''/data'', Dir)] ''/data'' = Inl NoDownloadedData
   \<and> Narayan16_get_available_ids [(''/data'', Dir)] ''/data'' = Inl NoDownloadedData
   \<and> dr3_load_table sample_ext [] ''/data'' ''/data/tables'' ''1'' = Inl (RuntimeError not_downloaded_message)
   \<and> dr3_get_obj_ids [] ''/data'' ''/data/DR3'' = Inl (RuntimeError not_downloaded_message)
   \<and> dr1_raise_for_data [] ''/data'' = Inl (RuntimeError not_downloaded_message)"
  using require_data_path_guard [of "[(''/data'', Dir)]" "[''/data'', ''/data/spectra'']" "''/data''"]
        require_data_path_guard [of "[(''/data'', Dir)]" "[''/data'']"]
        require_data_path_guard [of "[]" "[]" "''/data''" sample_ext "''/data/tables''" "''1''" "''/data/DR3''"]
  by (simp add: path_exists_def DR1_spectra_dir_def Narayan16_photometry_dir_def join_def)

section \<open>Skipped downloads\<close>

lemma check_url_unreachable:
  "net (requests w) url = ConnectionFailed \<Longrightarrow>
   check_url net w url =
     (Inr False, w\<lparr>warnings := warnings w @ [''Could not connect to '' @ url],
                    requests := requests w + 1\<rparr>)"
  by (simp add: check_url_def)

text \<open>
  C8. When the connection to the URL fails, \<^verbatim>\<open>check_url\<close> records the warning and
  returns False, and \<^verbatim>\<open>download_file\<close> (given a path) and \<^verbatim>\<open>download_tar\<close>
  return with the disk as it was. When the path (the output directory) exists and
  \<^verbatim>\<open>force\<close> is False they return at once: the world is unchanged, no request is
  made.
\<close>

theorem downloads_skip:
  "(net (requests w) url = ConnectionFailed \<longrightarrow>
      check_url net w url =
        (Inr False, w\<lparr>warnings := warnings w @ [''Could not connect to '' @ url],
                       requests := requests w + 1\<rparr>)
      \<and> fst (download_file net w url (Some p) None force) = Inr None
      \<and> disk_of (snd (download_file net w url (Some p) None force)) = disk_of w
      \<and> fst (download_tar net untar w url out_dir force) = Inr ()
      \<and> disk_of (snd (download_tar net untar w url out_dir force)) = disk_of w)
   \<and> (path_exists (disk_of w) p \<longrightarrow>
        download_file net w url (Some p) None False = (Inr None, w))
   \<and> (path_exists (disk_of w) out_dir \<longrightarrow>
        download_tar net untar w url out_dir False = (Inr (), w))"
  by (simp add: download_file_def download_tar_def check_url_unreachable)

theorem downloads_skip_witness:
  "check_url (\<lambda>n u. ConnectionFailed) \<lparr>disk_of = [(''/data'', Dir)], warnings = [], requests = 0\<rparr> ''http://x''
     = (Inr False, \<lparr>disk_of = [(''/data'', Dir)], warnings = [''Could not connect to http://x''], requests = 1\<rparr>)
   \<and> download_file (\<lambda>n u. ConnectionFailed) \<lparr>disk_of = [(''/data'', Dir)], warnings = [], requests = 0\<rparr>
        ''http://x'' (Some ''/data/f.dat'') None False
     = (Inr None, \<lparr>disk_of = [(''/data'', Dir)], warnings = [''Could not connect to http://x''], requests = 1\<rparr>)
   \<and> download_tar (\<lambda>n u. ConnectionFailed) (\<lambda>b. Inr []) \<lparr>disk_of = [(''/data'', Dir)], warnings = [], requests = 0\<rparr>
        ''http://x'' ''/data/tables'' False
     = (Inr (), \<lparr>disk_of = [(''/data'', Dir)], warnings = [''Could not connect to http://x''], requests = 1\<rparr>)
   \<and> download_file (\<lambda>n u. Response 200 ''new'') \<lparr>disk_of = [(''/data'', Dir)], warnings = [], requests = 0\<rparr>
        ''http://x'' (Some ''/data'') None False
     = (Inr None, \<lparr>disk_of = [(''/data'', Dir)], warnings = [], requests = 0\<rparr>)
   \<and> download_tar (\<lambda>n u. Response 200 ''new'') (\<lambda>b. Inr []) \<lparr>disk_of = [(''/data'', Dir)], warnings = [], requests = 0\<rparr>
        ''http://x'' ''/data'' False
     = (Inr (), \<lparr>disk_of = [(''/data'', Dir)], warnings = [], requests = 0\<rparr>)"
  using downloads_skip [of "\<lambda>n u. ConnectionFailed" "\<lparr>disk_of = [(''/data'', Dir)], warnings = [], requests = 0\<rparr>"
           "''http://x''" "''/data/f.dat''" False "\<lambda>b. Inr []" "''/data/tables''"]
        downloads_skip [of "\<lambda>n u. Response 200 ''new''" "\<lparr>disk_of = [(''/data'', Dir)], warnings = [], requests = 0\<rparr>"
           "''http://x''" "''/data''" False "\<lambda>b. Inr []" "''/data''"]
  by (simp add: path_exists_def download_file_def download_tar_def check_url_def)

section \<open>The common table schema\<close>

lemma set_col_Inr:
  assumes "set_col t n c = Inr t'"
  shows "colnames t' = (if n \<in> set (colnames t) then colnames t else colnames t @ [n])
   \<and> meta t' = meta t
   \<and> (\<forall>m. get_col t' m = (if m = n then Inr c else get_col t m))"
proof -
  from assms have t': "t' = t\<lparr>cols := AList.update n c (cols t)\<rparr>"
    by (auto simp: set_col_def split: if_splits)
  have 1: "colnames t' = (if n \<in> set (colnames t) then colnames t else colnames t @ [n])"
    unfolding t' colnames_def by (simp add: update_keys del: set_map)
  have 2: "\<forall>m. get_col t' m = (if m = n then Inr c else get_col t m)"
    unfolding t' get_col_def by (simp add: update_conv')
  from 1 2 t' show ?thesis by simp
qed

lemma keys_delete: "set (map fst (AList.delete k al)) = set (map fst al) - {k}"
  by (simp only: delete_keys set_removeAll)

lemma set_num_Inr:
  "set_num t n x = Inr t' \<Longrightarrow>
   colnames t' = (if n \<in> set (colnames t) then colnames t else colnames t @ [n])
   \<and> meta t' = meta t"
  by (auto simp: set_num_def dest: set_col_Inr split: if_splits)

lemma set_str_Inr:
  "set_str t n x = Inr t' \<Longrightarrow>
   colnames t' = (if n \<in> set (colnames t) then colnames t else colnames t @ [n])
   \<and> meta t' = meta t"
  by (auto simp: set_str_def dest: set_col_Inr split: if_splits)

lemma meta_set_keys:
  "set (meta_keys (meta_set t k v)) = insert k (set (meta_keys t))"
  "colnames (meta_set t k v) = colnames t"
  by (auto simp: meta_set_def meta_keys_def colnames_def update_keys)

lemma meta_del_Inr:
  assumes "meta_del t k = Inr t'"
  shows "set (meta_keys t') = set (meta_keys t) - {k} \<and> colnames t' = colnames t"
proof -
  from assms have t': "t' = t\<lparr>meta := AList.delete k (meta t)\<rparr>"
    by (auto simp: meta_del_def split: if_splits)
  show ?thesis unfolding t' meta_keys_def colnames_def
    by (simp add: keys_delete del: set_map)
qed

lemma meta_pop_Inr:
  assumes "meta_pop t k = Inr (v, t')"
  shows "set (meta_keys t') = set (meta_keys t) - {k} \<and> colnames t' = colnames t"
proof -
  from assms have t': "t' = t\<lparr>meta := AList.delete k (meta t)\<rparr>"
    by (auto simp: meta_pop_def split: option.splits)
  show ?thesis unfolding t' meta_keys_def colnames_def
    by (simp add: keys_delete del: set_map)
qed

lemma rename_column_Inr:
  "rename_column t old new = Inr t' \<Longrightarrow>
   colnames t' = map (\<lambda>n. if n = old then new else n) (colnames t) \<and> meta t' = meta t"
  by (auto simp: rename_column_def colnames_def split: if_splits)

lemma colnames_empty [simp]: "colnames (empty_table\<lparr>meta := m\<rparr>) = []"
  by (simp add: colnames_def empty_table_def)

lemma get_col_empty [simp]: "get_col (empty_table\<lparr>meta := m\<rparr>) n = Inl (KeyError n)"
  by (simp add: get_col_def empty_table_def)

lemma meta_empty [simp]: "meta (empty_table\<lparr>meta := m\<rparr>) = m"
  by simp

lemma format_sncosmo_table_Inr:
  assumes "format_sncosmo_table t = Inr t'"
  shows "colnames t' = [''time'', ''band'', ''flux'', ''fluxerr'', ''zp'', ''zpsys''] \<and> meta t' = meta t"
proof -
  from assms obtain jd t1 band t2 flux t3 fluxerr t4 t5 where
    s1: "set_col (empty_table\<lparr>meta := meta t\<rparr>) ''time'' jd = Inr t1"
    and s2: "set_col t1 ''band'' band = Inr t2"
    and s3: "set_col t2 ''flux'' flux = Inr t3"
    and s4: "set_col t3 ''fluxerr'' fluxerr = Inr t4"
    and s5: "set_col t4 ''zp'' (NumCol (replicate (nrows t) 27.5)) = Inr t5"
    and s6: "set_col t5 ''zpsys'' (StrCol (replicate (nrows t) ''ab'')) = Inr t'"
    unfolding format_sncosmo_table_def Let_def bindE_eq_Inr by blast
  from set_col_Inr [OF s1] have "colnames t1 = [''time'']" "meta t1 = meta t" by simp_all
  moreover from set_col_Inr [OF s2] have "colnames t2 = (colnames t1) @ [''band'']" "meta t2 = meta t1"
    using calculation by simp_all
  moreover from set_col_Inr [OF s3] have "colnames t3 = (colnames t2) @ [''flux'']" "meta t3 = meta t2"
    using calculation by simp_all
  moreover from set_col_Inr [OF s4] have "colnames t4 = (colnames t3) @ [''fluxerr'']" "meta t4 = meta t3"
    using calculation by simp_all
  moreover from set_col_Inr [OF s5] have "colnames t5 = (colnames t4) @ [''zp'']" "meta t5 = meta t4"
    using calculation by simp_all
  moreover from set_col_Inr [OF s6] have "colnames t' = (colnames t5) @ [''zpsys'']" "meta t' = meta t5"
    using calculation by simp_all
  ultimately show ?thesis by simp
qed

lemma prefix_col_Inr:
  "prefix_col pre pb = Inr c \<Longrightarrow>
   (\<exists>xs. pb = StrCol xs \<and> c = StrCol (map (\<lambda>s. pre @ s) xs)) \<or> (pb = NumCol [] \<and> c = StrCol [])"
  by (cases pb) (auto split: if_splits)

lemma format_table_narayan16_Inr:
  assumes "format_table_narayan16 t = Inr t'"
  shows "colnames t' = [''time'', ''band'', ''zp'', ''zpsys'', ''flux'', ''fluxerr''] \<and> meta t' = meta t
    \<and> (\<exists>pb band. get_col t ''Passband'' = Inr pb \<and> prefix_col ''csp_dr3_'' pb = Inr band
          \<and> get_col t' ''band'' = Inr band)
    \<and> get_col t' ''zp'' = Inr (NumCol (replicate (nrows t) 25))"
proof -
  from assms obtain jd t1 pb band t2 t3 t4 flux t5 fluxerr where
    s1: "set_col (empty_table\<lparr>meta := meta t\<rparr>) ''time'' jd = Inr t1"
    and g2: "get_col t ''Passband'' = Inr pb" and p2: "prefix_col ''csp_dr3_'' pb = Inr band"
    and s2: "set_col t1 ''band'' band = Inr t2"
    and s3: "set_col t2 ''zp'' (NumCol (replicate (nrows t) 25)) = Inr t3"
    and s4: "set_col t3 ''zpsys'' (StrCol (replicate (nrows t) ''ab'')) = Inr t4"
    and s5: "set_col t4 ''flux'' flux = Inr t5"
    and s6: "set_col t5 ''fluxerr'' fluxerr = Inr t'"
    unfolding format_table_narayan16_def Let_def bindE_eq_Inr by blast
  note a1 = set_col_Inr [OF s1] and a2 = set_col_Inr [OF s2] and a3 = set_col_Inr [OF s3]
    and a4 = set_col_Inr [OF s4] and a5 = set_col_Inr [OF s5] and a6 = set_col_Inr [OF s6]
  have n1: "colnames t1 = [''time'']" using a1 by simp
  have n2: "colnames t2 = [''time'', ''band'']" using a2 n1 by simp
  have n3: "colnames t3 = [''time'', ''band'', ''zp'']" using a3 n2 by simp
  have n4: "colnames t4 = [''time'', ''band'', ''zp'', ''zpsys'']" using a4 n3 by simp
  have n5: "colnames t5 = [''time'', ''band'', ''zp'', ''zpsys'', ''flux'']" using a5 n4 by simp
  have n6: "colnames t' = [''time'', ''band'', ''zp'', ''zpsys'', ''flux'', ''fluxerr'']" using a6 n5 by simp
  have m: "meta t' = meta t" using a1 a2 a3 a4 a5 a6 by simp
  have b: "get_col t' ''band'' = Inr band" using a2 a3 a4 a5 a6 by simp
  have z: "get_col t' ''zp'' = Inr (NumCol (replicate (nrows t) 25))" using a3 a4 a5 a6 by simp
  from n6 m b z g2 p2 show ?thesis by blast
qed

text \<open>
  C9. Whenever \<^verbatim>\<open>_format_table\<close> of ESSENCE Narayan16 returns, the \<open>band\<close> column
  holds \<open>csp_dr3_\<close> followed by each raw passband name (nothing for a table without
  rows) and the \<open>zp\<close> column holds 25 in every row; so no band is one of the
  declared \<^verbatim>\<open>band_names\<close> and no zero point is the declared 27.5.
\<close>

theorem format_table_narayan16_bands_zp:
  assumes "format_table_narayan16 data_table = Inr out_table"
  shows "\<exists>pb band.
           get_col data_table ''Passband'' = Inr pb
         \<and> get_col out_table ''band'' = Inr (StrCol band)
         \<and> ((\<exists>xs. pb = StrCol xs \<and> band = map (\<lambda>b. ''csp_dr3_'' @ b) xs) \<or> (pb = NumCol [] \<and> band = []))
         \<and> (\<forall>b\<in>set band. b \<notin> set Narayan16_band_names)
         \<and> get_col out_table ''zp'' = Inr (NumCol (replicate (nrows data_table) 25))
         \<and> (\<forall>z\<in>set (replicate (nrows data_table) 25). z = 25 \<and> z \<notin> set Narayan16_zero_point)"
proof -
  from format_table_narayan16_Inr [OF assms] obtain pb c where
    g: "get_col data_table ''Passband'' = Inr pb" and p: "prefix_col ''csp_dr3_'' pb = Inr c"
    and b: "get_col out_table ''band'' = Inr c"
    and z: "get_col out_table ''zp'' = Inr (NumCol (replicate (nrows data_table) 25))"
    by blast
  from prefix_col_Inr [OF p] obtain band where
    c: "c = StrCol band"
    and d: "(\<exists>xs. pb = StrCol xs \<and> band = map (\<lambda>b. ''csp_dr3_'' @ b) xs) \<or> (pb = NumCol [] \<and> band = [])"
    by blast
  from d have e: "\<forall>b\<in>set band. b \<notin> set Narayan16_band_names"
    by (auto simp: Narayan16_band_names_def)
  have f: "\<forall>z\<in>set (replicate (nrows data_table) 25). z = 25 \<and> z \<notin> set Narayan16_zero_point"
    by (auto simp: Narayan16_zero_point_def Narayan16_band_names_def)
  from g b c d e z f show ?thesis by blast
qed

lemmas eval_defs = bindE_def item_def py_split_def lstrip_def rstrip_def startswith_def join_def
  basename_def stem_def split0_def path_exists_def children_def Path_glob_def Path_rglob_def
  read_bytes_def readlines_def nrows_def colnames_def meta_keys_def empty_table_def get_col_def
  set_col_def set_num_def set_str_def rename_column_def remove_column_def meta_set_def
  meta_get_def meta_del_def meta_pop_def read_table_def to_float_def to_int_def float_field_def
  readline_at_def is_space_def Let_def

lemma essence_format_sample: "format_table_narayan16 essence_raw_table = Inr essence_formatted_table"
  by (simp add: format_table_narayan16_def essence_raw_table_def essence_formatted_table_def eval_defs)

theorem format_table_narayan16_bands_zp_witness:
  "format_table_narayan16 essence_raw_table = Inr essence_formatted_table
   \<and> get_col essence_formatted_table ''band'' = Inr (StrCol [''csp_dr3_R'', ''csp_dr3_I''])
   \<and> ''csp_dr3_R'' \<notin> set Narayan16_band_names \<and> ''csp_dr3_I'' \<notin> set Narayan16_band_names
   \<and> get_col essence_formatted_table ''zp'' = Inr (NumCol [25, 25])
   \<and> 25 \<notin> set Narayan16_zero_point"
  using essence_format_sample format_table_narayan16_bands_zp [OF essence_format_sample]
  by (simp add: essence_formatted_table_def get_col_def
      Narayan16_band_names_def Narayan16_zero_point_def)

lemma meta_keys_cong: "meta a = meta b \<Longrightarrow> meta_keys a = meta_keys b"
  by (simp add: meta_keys_def)

lemma SN3YR_schema:
  assumes "SN3YR_get_data_for_id E fs data_dir obj_id True = Inr t"
  shows "colnames t = [''time'', ''band'', ''flux'', ''fluxerr'', ''zp'', ''zpsys'']
       \<and> set [''obj_id'', ''ra'', ''dec'', ''z'', ''z_err''] \<subseteq> set (meta_keys t)"
proof -
  from assms obtain data0 data where
    d: "meta_del data0 ''comments'' = Inr data" and f: "format_sncosmo_table data = Inr t"
    and k: "set [''obj_id'', ''ra'', ''dec'', ''z'', ''z_err''] \<subseteq> set (meta_keys data0)"
    unfolding SN3YR_get_data_for_id_def Let_def bindE_eq_Inr
    by (auto simp: meta_set_keys bindE_eq_Inr Let_def split: if_splits)
  from meta_del_Inr [OF d] k
  have "set [''obj_id'', ''ra'', ''dec'', ''z'', ''z_err''] \<subseteq> set (meta_keys data)" by auto
  with format_sncosmo_table_Inr [OF f] meta_keys_cong [of t data] show ?thesis by simp
qed

lemma Narayan16_schema:
  assumes "Narayan16_get_data_for_id E fs data_dir obj_id True = Inr t"
  shows "colnames t = [''time'', ''band'', ''zp'', ''zpsys'', ''flux'', ''fluxerr'']
       \<and> ''obj_id'' \<in> set (meta_keys t)"
proof -
  from assms obtain data0 data where
    d: "meta_del data0 ''comments'' = Inr data" and f: "format_table_narayan16 data = Inr t"
    and k: "''obj_id'' \<in> set (meta_keys data0)"
    unfolding Narayan16_get_data_for_id_def Let_def bindE_eq_Inr
    by (auto simp: meta_set_keys bindE_eq_Inr Let_def split: if_splits)
  from meta_del_Inr [OF d] k have "''obj_id'' \<in> set (meta_keys data)" by auto
  with format_table_narayan16_Inr [OF f] meta_keys_cong [of t data] show ?thesis by simp
qed

lemma stack_cols_names: "stack_cols as bs = Inr cs \<Longrightarrow> map fst cs = map fst as"
  by (induction as arbitrary: cs) (auto split: option.splits sum.splits)

lemma vstack_colnames: "vstack a b = Inr c \<Longrightarrow> colnames c = colnames a"
  by (auto simp: vstack_def colnames_def bindE_eq_Inr dest: stack_cols_names split: if_splits)

lemma DR1_read_all_colnames:
  "DR1_read_all E fs files out r = Inr (out', r') \<Longrightarrow> colnames out' = colnames out"
  by (induction files arbitrary: out r) (auto split: sum.splits dest: vstack_colnames)

lemma DR1_schema:
  assumes "DR1_get_data_for_id E fs data_dir obj_id True = Inr t"
  shows "colnames t = [''time'', ''wavelength'', ''flux'', ''epoch'', ''wavelength_range'',
                       ''telescope'', ''instrument'']
       \<and> set [''obj_id'', ''ra'', ''dec'', ''z'', ''z_err''] \<subseteq> set (meta_keys t)"
proof -
  from assms obtain files out r data0 data where
    a: "DR1_read_all E fs files DR1_out_table None = Inr (out, r)"
    and d: "meta_del data0 ''comments'' = Inr data" and f: "rename_column data ''date'' ''time'' = Inr t"
    and k: "set [''obj_id'', ''ra'', ''dec'', ''z'', ''z_err''] \<subseteq> set (meta_keys data0)"
    and c: "colnames data0 = colnames out"
    unfolding DR1_get_data_for_id_def Let_def bindE_eq_Inr
    by (auto simp: meta_set_keys bindE_eq_Inr Let_def split: if_splits option.splits)
  from DR1_read_all_colnames [OF a] c have "colnames data0 = colnames DR1_out_table" by simp
  with meta_del_Inr [OF d] have n: "colnames data = colnames DR1_out_table" by simp
  from meta_del_Inr [OF d] k
  have "set [''obj_id'', ''ra'', ''dec'', ''z'', ''z_err''] \<subseteq> set (meta_keys data)" by auto
  moreover have "colnames DR1_out_table =
      [''date'', ''wavelength'', ''flux'', ''epoch'', ''wavelength_range'', ''telescope'', ''instrument'']"
    by (simp add: DR1_out_table_def colnames_def)
  ultimately show ?thesis
    using rename_column_Inr [OF f] n meta_keys_cong [of t data] by simp
qed

lemma betoule14_schema:
  assumes "betoule14_get_data_for_id E fs photometry_dir obj_id True = Inr t"
  shows "colnames t = [''time'', ''flux'', ''fluxerr'', ''zp'', ''band'', ''zpsys'']
       \<and> set [''obj_id'', ''ra'', ''dec'', ''z'', ''z_err''] \<subseteq> set (meta_keys t)"
proof -
  from assms obtain t0 t1 t2 t3 t4 t5 t6 jd t7 z where
    n: "colnames t0 = betoule14_names"
    and r1: "rename_column t0 ''Date'' ''time'' = Inr t1"
    and r2: "rename_column t1 ''Flux'' ''flux'' = Inr t2"
    and r3: "rename_column t2 ''Fluxerr'' ''fluxerr'' = Inr t3"
    and r4: "rename_column t3 ''Filter'' ''band'' = Inr t4"
    and r5: "rename_column t4 ''ZP'' ''zp'' = Inr t5"
    and r6: "rename_column t5 ''MagSys'' ''zpsys'' = Inr t6"
    and s: "set_col t6 ''time'' jd = Inr t7"
    and t: "t = meta_set (meta_set (meta_set (meta_set (meta_set (meta_set t7 ''obj_id'' (VStr obj_id))
               ''ra'' VNone) ''dec'' VNone) ''z'' (VNum z)) ''z_err'' VNone)
               ''comments'' (VStr ''z represents the heliocentric redshift'')"
    unfolding betoule14_get_data_for_id_def Let_def bindE_eq_Inr
    by (auto simp: bindE_eq_Inr Let_def split: if_splits option.splits)
  have "colnames t6 = [''time'', ''flux'', ''fluxerr'', ''zp'', ''band'', ''zpsys'']"
    using rename_column_Inr [OF r1] rename_column_Inr [OF r2] rename_column_Inr [OF r3]
      rename_column_Inr [OF r4] rename_column_Inr [OF r5] rename_column_Inr [OF r6] n
    by (simp add: betoule14_names_def)
  with set_col_Inr [OF s] have "colnames t7 = [''time'', ''flux'', ''fluxerr'', ''zp'', ''band'', ''zpsys'']"
    by simp
  then show ?thesis unfolding t by (simp add: meta_set_keys)
qed

lemma decimal_1248677: "decimal 1248677 = ''1248677''"
  by (simp add: decimal.simps)

lemma des_ids: "SN3YR_get_available_ids sample_ext des_disk ''/des'' = Inr [''01248677'']"
  by (simp add: SN3YR_get_available_ids_def SN3YR_photometry_dir_def sample_ext_def des_disk_def eval_defs)

lemma des_sample:
  "SN3YR_get_data_for_id sample_ext des_disk ''/des'' ''01248677'' True = Inr des_sample_table"
  unfolding SN3YR_get_data_for_id_def des_ids des_sample_table_def
  by (simp add: SN3YR_photometry_dir_def SN3YR_data_names_def format_08d_def decimal_1248677
      format_sncosmo_table_def convert_to_jd_def snoopy_offset_def mjd_offset_def
      sample_ext_def des_disk_def sample_comments_def eval_defs)

lemma essence_ids: "Narayan16_get_available_ids essence_disk ''/essence'' = Inr [''b004'']"
  by (simp add: Narayan16_get_available_ids_def Narayan16_photometry_dir_def essence_disk_def eval_defs)

lemma essence_sample:
  "Narayan16_get_data_for_id sample_ext essence_disk ''/essence'' ''b004'' True = Inr essence_sample_table"
  unfolding Narayan16_get_data_for_id_def essence_ids essence_sample_table_def
  by (simp add: Narayan16_photometry_dir_def Narayan16_data_names_def
      format_table_narayan16_def convert_to_jd_def snoopy_offset_def mjd_offset_def
      sample_ext_def essence_disk_def sample_comments_def eval_defs)

lemma csp_ids: "DR1_get_available_ids csp_disk ''/csp'' = Inr [''2005el'']"
  by (simp add: DR1_get_available_ids_def DR1_spectra_dir_def csp_disk_def eval_defs)

lemma csp_sample:
  "DR1_get_data_for_id sample_ext csp_disk ''/csp'' ''2005el'' True = Inr csp_sample_table"
  unfolding csp_sample_table_def
  by (simp add: DR1_get_data_for_id_def DR1_read_file_def DR1_spectra_dir_def DR1_out_table_def
      generator_truth_def comment_float_def vstack_def
      convert_to_jd_def snoopy_offset_def mjd_offset_def
      sample_ext_def csp_disk_def sample_comments_def eval_defs)

lemma jla_ids: "betoule14_get_available_ids jla_disk ''/jla'' = Inr [''SN2005el'']"
  by (simp add: betoule14_get_available_ids_def jla_disk_def eval_defs)

lemma jla_sample:
  "betoule14_get_data_for_id sample_ext jla_disk ''/jla'' ''SN2005el'' True = Inr jla_sample_table"
  unfolding betoule14_get_data_for_id_def jla_ids jla_sample_table_def
  by (simp add: betoule14_names_def
      convert_to_jd_def snoopy_offset_def mjd_offset_def
      sample_ext_def jla_disk_def sample_comments_def eval_defs)

text \<open>
  C1, as stated, fails. CSP DR1 is a spectroscopic release: for the one available
  identifier of the sample disk, \<^verbatim>\<open>get_data_for_id\<close> with \<^verbatim>\<open>format_table=True\<close>
  returns a table with the columns time, wavelength, flux, epoch, wavelength\_range,
  telescope and instrument; there is no band, fluxerr, zp or zpsys column. ESSENCE
  Narayan16 copies its metadata from the header of the light-curve file: with the
  header \<open>objid ra dec\<close> the result has no \<open>z\<close> and no \<open>z_err\<close>.
\<close>

theorem DR1_table_without_band_column:
  "DR1_get_available_ids csp_disk ''/csp'' = Inr [''2005el'']
   \<and> map_sum id colnames (DR1_get_data_for_id sample_ext csp_disk ''/csp'' ''2005el'' True)
       = Inr [''time'', ''wavelength'', ''flux'', ''epoch'', ''wavelength_range'',
              ''telescope'', ''instrument'']
   \<and> ''band'' \<notin> set [''time'', ''wavelength'', ''flux'', ''epoch'', ''wavelength_range'',
                        ''telescope'', ''instrument'']
   \<and> Narayan16_get_available_ids essence_disk ''/essence'' = Inr [''b004'']
   \<and> map_sum id meta_keys (Narayan16_get_data_for_id sample_ext essence_disk ''/essence'' ''b004'' True)
       = Inr [''ra'', ''dec'', ''obj_id'']
   \<and> ''z'' \<notin> set [''ra'', ''dec'', ''obj_id'']"
  by (simp add: csp_ids csp_sample essence_ids essence_sample csp_sample_table_def
      essence_sample_table_def colnames_def meta_keys_def)

text \<open>
  C1, amended. Whenever \<^verbatim>\<open>get_data_for_id\<close> with \<^verbatim>\<open>format_table=True\<close> returns a
  table:
  \<^item> for DES SN3YR and JLA Betoule14 its columns are exactly time, band, flux, fluxerr,
    zp and zpsys (in the order each release builds them) and its metadata has the keys
    obj\_id, ra, dec, z and z\_err;
  \<^item> for ESSENCE Narayan16 its columns are those six and its metadata has obj\_id;
  \<^item> for CSP DR1 its columns are time, wavelength, flux, epoch, wavelength\_range,
    telescope and instrument, and its metadata has obj\_id, ra, dec, z and z\_err.
\<close>

theorem get_data_for_id_schema:
  "(SN3YR_get_data_for_id E fs1 des_dir des_id True = Inr t1 \<longrightarrow>
      colnames t1 = [''time'', ''band'', ''flux'', ''fluxerr'', ''zp'', ''zpsys'']
      \<and> set [''obj_id'', ''ra'', ''dec'', ''z'', ''z_err''] \<subseteq> set (meta_keys t1))
   \<and> (betoule14_get_data_for_id E fs2 jla_dir jla_id True = Inr t2 \<longrightarrow>
      colnames t2 = [''time'', ''flux'', ''fluxerr'', ''zp'', ''band'', ''zpsys'']
      \<and> set [''obj_id'', ''ra'', ''dec'', ''z'', ''z_err''] \<subseteq> set (meta_keys t2))
   \<and> (Narayan16_get_data_for_id E fs3 essence_dir essence_id True = Inr t3 \<longrightarrow>
      colnames t3 = [''time'', ''band'', ''zp'', ''zpsys'', ''flux'', ''fluxerr'']
      \<and> ''obj_id'' \<in> set (meta_keys t3))
   \<and> (DR1_get_data_for_id E fs4 csp_dir csp_id True = Inr t4 \<longrightarrow>
      colnames t4 = [''time'', ''wavelength'', ''flux'', ''epoch'', ''wavelength_range'',
                     ''telescope'', ''instrument'']
      \<and> set [''obj_id'', ''ra'', ''dec'', ''z'', ''z_err''] \<subseteq> set (meta_keys t4))"
  using SN3YR_schema [of E fs1 des_dir des_id t1] betoule14_schema [of E fs2 jla_dir jla_id t2]
    Narayan16_schema [of E fs3 essence_dir essence_id t3] DR1_schema [of E fs4 csp_dir csp_id t4]
  by blast

theorem get_data_for_id_schema_witness:
  "SN3YR_get_data_for_id sample_ext des_disk ''/des'' ''01248677'' True = Inr des_sample_table
   \<and> colnames des_sample_table = [''time'', ''band'', ''flux'', ''fluxerr'', ''zp'', ''zpsys'']
   \<and> set [''obj_id'', ''ra'', ''dec'', ''z'', ''z_err''] \<subseteq> set (meta_keys des_sample_table)
   \<and> betoule14_get_data_for_id sample_ext jla_disk ''/jla'' ''SN2005el'' True = Inr jla_sample_table
   \<and> colnames jla_sample_table = [''time'', ''flux'', ''fluxerr'', ''zp'', ''band'', ''zpsys'']
   \<and> set [''obj_id'', ''ra'', ''dec'', ''z'', ''z_err''] \<subseteq> set (meta_keys jla_sample_table)
   \<and> Narayan16_get_data_for_id sample_ext essence_disk ''/essence'' ''b004'' True = Inr essence_sample_table
   \<and> colnames essence_sample_table = [''time'', ''band'', ''zp'', ''zpsys'', ''flux'', ''fluxerr'']
   \<and> ''obj_id'' \<in> set (meta_keys essence_sample_table)
   \<and> DR1_get_data_for_id sample_ext csp_disk ''/csp'' ''2005el'' True = Inr csp_sample_table
   \<and> colnames csp_sample_table = [''time'', ''wavelength'', ''flux'', ''epoch'', ''wavelength_range'',
                     ''telescope'', ''instrument'']
   \<and> set [''obj_id'', ''ra'', ''dec'', ''z'', ''z_err''] \<subseteq> set (meta_keys csp_sample_table)"
  using get_data_for_id_schema [where E = sample_ext
          and ?fs1.0 = des_disk and des_dir = "''/des''" and des_id = "''01248677''" and ?t1.0 = des_sample_table
          and ?fs2.0 = jla_disk and jla_dir = "''/jla''" and jla_id = "''SN2005el''" and ?t2.0 = jla_sample_table
          and ?fs3.0 = essence_disk and essence_dir = "''/essence''" and essence_id = "''b004''"
          and ?t3.0 = essence_sample_table
          and ?fs4.0 = csp_disk and csp_dir = "''/csp''" and csp_id = "''2005el''" and ?t4.0 = csp_sample_table]
  by (simp add: des_sample jla_sample essence_sample csp_sample)

section \<open>The copying cache keeps its objects to itself\<close>

lemma map_of_take_Some: "map_of (take n xs) k = Some v \<Longrightarrow> map_of xs k = Some v"
proof (induction xs arbitrary: n)
  case Nil
  then show ?case by simp
next
  case (Cons x xs)
  then show ?case by (cases n) (auto split: if_splits)
qed

lemma separated_iff:
  "separated s \<longleftrightarrow>
     (\<forall>k a. (k, a) \<in> set (entries s) \<longrightarrow> a < next_addr s \<and> a \<notin> set (handed_out s))
     \<and> (\<forall>a. a \<in> set (handed_out s) \<longrightarrow> a < next_addr s)"
  by (auto simp: separated_def list_all_iff)

lemma set_trim: "(case maxsize of None \<Rightarrow> es | Some m \<Rightarrow> take m es) = es' \<Longrightarrow> set es' \<subseteq> set es"
  by (auto split: option.splits dest: in_set_takeD)

lemma map_of_trim:
  "(case maxsize of None \<Rightarrow> es | Some m \<Rightarrow> take m es) = es' \<Longrightarrow> map_of es' k = Some v \<Longrightarrow>
   map_of es k = Some v"
  by (auto split: option.splits dest: map_of_take_Some)

lemma cached_func_miss:
  "maxsize \<noteq> Some 0 \<Longrightarrow> map_of (entries s) k = None \<Longrightarrow>
   cached_func maxsize f s k =
     (next_addr s,
      s\<lparr>heap := (heap s)(next_addr s := Some (f k (invocations s))),
        next_addr := Suc (next_addr s),
        invocations := Suc (invocations s),
        entries := (case maxsize of None \<Rightarrow> (k, next_addr s) # entries s
                    | Some m \<Rightarrow> take m ((k, next_addr s) # entries s))\<rparr>)"
  by (cases maxsize) (simp_all add: cached_func_def invoke_def Let_def)

lemma cached_func_hit:
  "maxsize \<noteq> Some 0 \<Longrightarrow> map_of (entries s) k = Some a \<Longrightarrow>
   cached_func maxsize f s k = (a, s\<lparr>entries := (k, a) # AList.delete k (entries s)\<rparr>)"
  by (simp add: cached_func_def)

lemma cached_func_uncached:
  "cached_func (Some 0) f s k =
     (next_addr s,
      s\<lparr>heap := (heap s)(next_addr s := Some (f k (invocations s))),
        next_addr := Suc (next_addr s),
        invocations := Suc (invocations s)\<rparr>)"
  by (simp add: cached_func_def invoke_def)

text \<open>What the plain cache returns and leaves behind.\<close>

lemma cached_func_facts:
  assumes "separated s" and "cached_func maxsize f s k = (a, s1)"
  shows "separated s1" and "a < next_addr s1" and "a \<notin> set (handed_out s1)"
    and "handed_out s1 = handed_out s" and "next_addr s \<le> next_addr s1"
    and "\<forall>b < next_addr s. heap s1 b = heap s b"
proof -
  have "separated s1 \<and> a < next_addr s1 \<and> a \<notin> set (handed_out s1)
      \<and> handed_out s1 = handed_out s \<and> next_addr s \<le> next_addr s1
      \<and> (\<forall>b < next_addr s. heap s1 b = heap s b)"
  proof (cases "maxsize = Some 0")
    case True
    with assms show ?thesis
      by (fastforce simp: cached_func_uncached separated_iff less_Suc_eq)
  next
    case False
    show ?thesis
    proof (cases "map_of (entries s) k")
      case None
      define es where "es = (case maxsize of None \<Rightarrow> (k, next_addr s) # entries s
                    | Some m \<Rightarrow> take m ((k, next_addr s) # entries s))"
      from set_trim [OF es_def [symmetric]]
      have sub: "set es \<subseteq> insert (k, next_addr s) (set (entries s))" by simp
      from assms(2) have eq: "a = next_addr s"
        "s1 = s\<lparr>heap := (heap s)(next_addr s := Some (f k (invocations s))),
                next_addr := Suc (next_addr s), invocations := Suc (invocations s),
                entries := es\<rparr>"
        unfolding cached_func_miss [OF False None] es_def by auto
      from assms(1) sub show ?thesis unfolding eq
        by (fastforce simp: separated_iff less_Suc_eq)
    next
      case (Some a')
      with False assms have eq: "a = a'" "s1 = s\<lparr>entries := (k, a') # AList.delete k (entries s)\<rparr>"
        by (auto simp: cached_func_def)
      from Some have "(k, a') \<in> set (entries s)" by (rule map_of_SomeD)
      with assms(1) show ?thesis unfolding eq
        by (fastforce simp: separated_iff AList.delete_eq)
    qed
  qed
  then show "separated s1" and "a < next_addr s1" and "a \<notin> set (handed_out s1)"
    and "handed_out s1 = handed_out s" and "next_addr s \<le> next_addr s1"
    and "\<forall>b < next_addr s. heap s1 b = heap s b"
    by blast+
qed

lemma cached_func_entry:
  assumes "map_of (entries s) k = Some a" and "cached_func maxsize f s k' = (a', s1)"
    and "map_of (entries s1) k \<noteq> None"
  shows "map_of (entries s1) k = Some a"
proof (cases "maxsize = Some 0")
  case True
  with assms show ?thesis by (auto simp: cached_func_uncached)
next
  case False
  show ?thesis
  proof (cases "map_of (entries s) k'")
    case None
    with assms(1) have ne: "k \<noteq> k'" by auto
    from assms(2) have es: "(case maxsize of None \<Rightarrow> (k', next_addr s) # entries s
                    | Some m \<Rightarrow> take m ((k', next_addr s) # entries s)) = entries s1"
      unfolding cached_func_miss [OF False None] by auto
    from assms(3) obtain b where b: "map_of (entries s1) k = Some b" by auto
    from map_of_trim [OF es b] ne assms(1) b show ?thesis by simp
  next
    case (Some b)
    with False assms(2) have "entries s1 = (k', b) # AList.delete k' (entries s)"
      by (auto simp: cached_func_def)
    with assms(1) Some show ?thesis by (auto simp: delete_conv)
  qed
qed

lemma lru_copy_cache_copy:
  "lru_copy_cache maxsize True f s k =
     (let (a, s1) = cached_func maxsize f s k
      in (next_addr s1,
          s1\<lparr>heap := (heap s1)(next_addr s1 := heap s1 a), next_addr := Suc (next_addr s1),
             handed_out := next_addr s1 # handed_out s1\<rparr>))"
  by (simp add: lru_copy_cache_def deepcopy_def Let_def split: prod.splits)

lemma step_separated:
  assumes "separated s"
  shows "separated (step maxsize True f e s)"
proof (cases e)
  case (Call k)
  obtain a s1 where c: "cached_func maxsize f s k = (a, s1)" by (cases "cached_func maxsize f s k")
  from cached_func_facts(1) [OF assms c] c Call show ?thesis
    by (fastforce simp: lru_copy_cache_copy separated_iff less_Suc_eq)
next
  case (Mutate a v)
  with assms show ?thesis by (simp add: separated_iff)
qed

lemma run_separated: "separated s \<Longrightarrow> separated (run maxsize True f es s)"
  by (induction es arbitrary: s) (simp_all add: step_separated)

lemma step_keeps_entry:
  assumes "separated s" and "map_of (entries s) k = Some a"
    and "map_of (entries (step maxsize True f e s)) k \<noteq> None"
  shows "map_of (entries (step maxsize True f e s)) k = Some a
       \<and> heap (step maxsize True f e s) a = heap s a"
proof (cases e)
  case (Call k')
  obtain a' s1 where c: "cached_func maxsize f s k' = (a', s1)" by (cases "cached_func maxsize f s k'")
  from assms(1,2) have lt: "a < next_addr s"
    by (auto simp: separated_iff dest: map_of_SomeD)
  from c Call have e1: "entries (step maxsize True f e s) = entries s1"
    by (simp add: lru_copy_cache_copy)
  with assms(3) cached_func_entry [OF assms(2) c] have "map_of (entries s1) k = Some a" by simp
  moreover from cached_func_facts(5,6) [OF assms(1) c] lt c Call
  have "heap (step maxsize True f e s) a = heap s a"
    by (auto simp: lru_copy_cache_copy)
  ultimately show ?thesis using e1 by simp
next
  case (Mutate b v)
  from assms(1,2) have "a \<notin> set (handed_out s)"
    by (auto simp: separated_iff dest: map_of_SomeD)
  with Mutate assms(2) show ?thesis by auto
qed

lemma run_keeps_entry:
  "separated s \<Longrightarrow> map_of (entries s) k = Some a \<Longrightarrow> stays maxsize True f k es s \<Longrightarrow>
   map_of (entries (run maxsize True f es s)) k = Some a
   \<and> heap (run maxsize True f es s) a = heap s a"
proof (induction es arbitrary: s)
  case Nil
  then show ?case by simp
next
  case (Cons e es)
  let ?s = "step maxsize True f e s"
  from Cons.prems have st: "stays maxsize True f k es ?s" by simp
  then have "map_of (entries ?s) k \<noteq> None" by (cases es) simp_all
  from step_keeps_entry [OF Cons.prems(1,2) this]
  have k: "map_of (entries ?s) k = Some a" and h: "heap ?s a = heap s a" by simp_all
  from Cons.IH [OF step_separated [OF Cons.prems(1)] k st] h show ?case by simp
qed


lemma returned_copy:
  "returned maxsize True f s k = (let (a, s1) = cached_func maxsize f s k in heap s1 a)"
  by (simp add: returned_def lru_copy_cache_copy Let_def split: prod.splits)

lemma returned_hit:
  "maxsize \<noteq> Some 0 \<Longrightarrow> map_of (entries s) k = Some a \<Longrightarrow>
   returned maxsize True f s k = heap s a"
  by (simp add: returned_copy cached_func_hit)

lemma returned_miss:
  "maxsize = Some 0 \<or> map_of (entries s) k = None \<Longrightarrow>
   returned maxsize True f s k = Some (f k (invocations s))"
  by (cases "maxsize = Some 0") (auto simp: returned_copy cached_func_uncached cached_func_miss)

lemma call_caches:
  assumes "separated s" and "maxsize \<noteq> Some 0"
  shows "\<exists>a. map_of (entries (step maxsize True f (Call k) s)) k = Some a
           \<and> heap (step maxsize True f (Call k) s) a = returned maxsize True f s k"
proof (cases "map_of (entries s) k")
  case None
  from assms(2) have "map_of (case maxsize of None \<Rightarrow> (k, next_addr s) # entries s
                    | Some m \<Rightarrow> take m ((k, next_addr s) # entries s)) k = Some (next_addr s)"
    by (cases maxsize; cases "the maxsize") auto
  with None assms(2) show ?thesis
    by (simp add: returned_miss lru_copy_cache_copy cached_func_miss)
next
  case (Some a)
  with assms(1) have "a < next_addr s" by (auto simp: separated_iff dest: map_of_SomeD)
  with Some assms(2) show ?thesis
    by (simp add: returned_hit lru_copy_cache_copy cached_func_hit)
qed

lemma unbounded_step_keeps:
  assumes "map_of (entries s) k \<noteq> None"
  shows "map_of (entries (step None True f e s)) k \<noteq> None"
proof (cases e)
  case (Call k')
  show ?thesis
  proof (cases "map_of (entries s) k'")
    case None
    with assms Call show ?thesis by (simp add: lru_copy_cache_copy cached_func_miss)
  next
    case (Some b)
    with assms Call show ?thesis by (simp add: lru_copy_cache_copy cached_func_hit delete_conv)
  qed
next
  case (Mutate a v)
  with assms show ?thesis by simp
qed

lemma unbounded_stays:
  "map_of (entries s) k \<noteq> None \<Longrightarrow> stays None True f k es s"
proof (induction es arbitrary: s)
  case Nil
  then show ?case by simp
next
  case (Cons e es)
  from Cons.IH [OF unbounded_step_keeps [OF Cons.prems]] Cons.prems
  show ?case by simp
qed

lemma uncached_step: "entries s = [] \<Longrightarrow> entries (step (Some 0) True f e s) = []"
  by (cases e) (simp_all add: lru_copy_cache_copy cached_func_uncached)

lemma uncached_run: "entries s = [] \<Longrightarrow> entries (run (Some 0) True f es s) = []"
  by (induction es arbitrary: s) (simp_all add: uncached_step)

lemma separated_init: "separated init_state"
  by (simp add: separated_def init_state_def)

lemma mutate_unseen:
  assumes "separated s"
  shows "returned maxsize True f (step maxsize True f (Mutate a v) s) k = returned maxsize True f s k"
proof (cases "maxsize = Some 0 \<or> map_of (entries s) k = None")
  case True
  then have "maxsize = Some 0 \<or> map_of (entries (step maxsize True f (Mutate a v) s)) k = None"
    by auto
  from returned_miss [OF this] returned_miss [OF True] show ?thesis by simp
next
  case False
  let ?t = "step maxsize True f (Mutate a v) s"
  from False obtain b where b: "map_of (entries s) k = Some b" and m: "maxsize \<noteq> Some 0" by auto
  with assms have "b \<notin> set (handed_out s)" by (auto simp: separated_iff dest: map_of_SomeD)
  then have h: "heap ?t b = heap s b" by auto
  from b have e: "map_of (entries ?t) k = Some b" by simp
  have "returned maxsize True f ?t k = heap ?t b" by (rule returned_hit [OF m e])
  also have "\<dots> = heap s b" by (rule h)
  also have "\<dots> = returned maxsize True f s k" by (rule returned_hit [OF m b, symmetric])
  finally show ?thesis .
qed

lemmas cache_eval_defs = returned_def lru_copy_cache_def cached_func_def invoke_def deepcopy_def
  init_state_def call_counter_def Let_def

text \<open>
  Without \<^verbatim>\<open>copy\<close> the caller is handed the cached object itself: a mutation shows in
  the next call.
\<close>

lemma plain_cache_shares:
  "returned None False call_counter
     (step None False call_counter (Mutate 0 7)
        (step None False call_counter (Call ''a'') init_state)) ''a'' = Some 7"
  by (simp add: cache_eval_defs)

text \<open>
  C10, as stated, fails for a bounded cache around a function that is not pure. With
  \<^verbatim>\<open>maxsize=1\<close>, a call for \<open>a\<close>, a call for \<open>b\<close> (which evicts the entry of
  \<open>a\<close>) and a second call for \<open>a\<close>: the wrapped function runs again, and the two
  calls for \<open>a\<close> return 0 and 2.
\<close>

theorem lru_copy_cache_evicted_recomputes:
  "returned (Some 1) True call_counter init_state ''a'' = Some 0
   \<and> returned (Some 1) True call_counter
        (run (Some 1) True call_counter [Call ''b'']
           (step (Some 1) True call_counter (Call ''a'') init_state)) ''a'' = Some 2"
  by (simp add: cache_eval_defs)

text \<open>
  C10, amended. Let \<open>s\<close> be any state the decorated function (with \<^verbatim>\<open>copy=True\<close>)
  has reached from its creation, through calls and through mutations of returned
  values.
  \<^item> A call whose arguments are not cached returns what the wrapped function computes.
  \<^item> After a call with arguments \<open>k\<close>, and after any further calls and mutations of
    returned values during which the entry of \<open>k\<close> stays in the cache (it always
    does when \<^verbatim>\<open>maxsize\<close> is \<open>None\<close>), a call with \<open>k\<close> returns a value
    equal to what that first call returned.
  \<^item> Mutating a returned value changes the result of no later call, for any arguments.
\<close>

theorem lru_copy_cache_isolation:
  assumes "s = run maxsize True f history init_state"
  shows "(map_of (entries s) k = None \<longrightarrow> returned maxsize True f s k = Some (f k (invocations s)))
       \<and> (maxsize = None \<or> stays maxsize True f k es (step maxsize True f (Call k) s) \<longrightarrow>
            returned maxsize True f (run maxsize True f es (step maxsize True f (Call k) s)) k
              = returned maxsize True f s k)
       \<and> returned maxsize True f (step maxsize True f (Mutate a v) s) k'
              = returned maxsize True f s k'"
proof -
  let ?s1 = "step maxsize True f (Call k) s"
  let ?s2 = "run maxsize True f es ?s1"
  from assms have sep: "separated s" by (simp add: run_separated separated_init)
  have first: "map_of (entries s) k = None \<longrightarrow> returned maxsize True f s k = Some (f k (invocations s))"
    by (simp add: returned_miss)
  have later: "returned maxsize True f ?s2 k = returned maxsize True f s k"
    if h: "maxsize = None \<or> stays maxsize True f k es ?s1"
  proof -
    have nz: "maxsize \<noteq> Some 0"
    proof
      assume z: "maxsize = Some 0"
      with assms have "entries s = []" by (simp add: uncached_run init_state_def)
      from uncached_step [OF this, of f "Call k"] z have "entries ?s1 = []" by simp
      moreover from h z have "stays maxsize True f k es ?s1" by simp
      then have "map_of (entries ?s1) k \<noteq> None" by (cases es) simp_all
      ultimately show False by simp
    qed
    from call_caches [OF sep nz] obtain b where
      b: "map_of (entries ?s1) k = Some b" and v: "heap ?s1 b = returned maxsize True f s k"
      by blast
    from h b have st: "stays maxsize True f k es ?s1"
      by (auto intro: unbounded_stays)
    from run_keeps_entry [OF step_separated [OF sep] b st]
    have "map_of (entries ?s2) k = Some b" and "heap ?s2 b = heap ?s1 b" by simp_all
    with returned_hit [OF nz, of ?s2 k b f] v show ?thesis by simp
  qed
  from first later mutate_unseen [OF sep] show ?thesis by blast
qed

theorem lru_copy_cache_isolation_witness:
  "returned None True call_counter init_state ''a'' = Some 0
   \<and> returned None True call_counter
        (run None True call_counter [Call ''b'', Mutate 1 7, Call ''a'']
           (step None True call_counter (Call ''a'') init_state)) ''a'' = Some 0
   \<and> stays (Some 2) True call_counter ''a'' [Call ''b'', Mutate 1 7]
        (step (Some 2) True call_counter (Call ''a'') init_state)
   \<and> returned (Some 2) True call_counter
        (run (Some 2) True call_counter [Call ''b'', Mutate 1 7]
           (step (Some 2) True call_counter (Call ''a'') init_state)) ''a'' = Some 0
   \<and> returned None True call_counter
        (step None True call_counter (Mutate 1 7)
           (run None True call_counter [Call ''a''] init_state)) ''a'' = Some 0"
  using lru_copy_cache_isolation [of init_state None call_counter "[]" "''a''"
          "[Call ''b'', Mutate 1 7, Call ''a'']" 1 7 "''a''"]
        lru_copy_cache_isolation [of init_state "Some 2" call_counter "[]" "''a''"
          "[Call ''b'', Mutate 1 7]" 1 7 "''a''"]
        lru_copy_cache_isolation [of "run None True call_counter [Call ''a''] init_state" None
          call_counter "[Call ''a'']" "''a''" "[]" 1 7 "''a''"]
  by (simp add: cache_eval_defs)

end
